theory Spec2Isabelle
  imports Main "HOL-Library.Word"
begin

section \<open>Data model\<close>

subsection \<open>Checked expressions (google.api.expr.v1alpha1)\<close>

text \<open>
  The oneof \<open>Constant.constant_kind\<close>. A \<open>*expr.Constant\<close> is a pointer and may be nil
  (\<open>cel_constant option\<close>); the oneof itself may be unset (\<open>ConstantKind = None\<close>).
  Doubles are carried as their 64 bits: the transpiler only passes them on.
\<close>

datatype constant_kind =
    Constant_NullValue
  | Constant_BoolValue bool
  | Constant_Int64Value "64 word"
  | Constant_Uint64Value "64 word"
  | Constant_DoubleValue "64 word"
  | Constant_StringValue string
  | Constant_BytesValue "8 word list"
  | Constant_DurationValue
  | Constant_TimestampValue

datatype cel_constant = Constant (ConstantKind: "constant_kind option")

text \<open>
  An \<open>*expr.Expr\<close> is a pointer: \<open>expr option\<close>, with \<open>None\<close> for nil, wherever the
  source holds one (the root, the operand of a select, the elements of \<open>Args\<close>).
  A node has its id and the oneof \<open>expr_kind\<close>, which may be unset. Only the fields that
  the source reads are kept: \<open>Select.test_only\<close> and \<open>Call.target\<close> are never read.
  A oneof wrapper that is set carries its payload.
\<close>

datatype expr = Expr (expr_id: "64 word") (ExprKind: "expr_kind option")
and expr_kind =
    Expr_ConstExpr cel_constant
  | Expr_IdentExpr string
  | Expr_SelectExpr "expr option" string
  | Expr_CallExpr string "expr option list"
  | Expr_ListExpr
  | Expr_StructExpr
  | Expr_ComprehensionExpr

text \<open>
  The oneof \<open>Type.type_kind\<close>. The source only switches on the variant; of the payloads
  the message name is kept.
\<close>

datatype type_kind =
    Type_Dyn
  | Type_Null
  | Type_Primitive
  | Type_Wrapper
  | Type_WellKnown
  | Type_ListType
  | Type_MapType
  | Type_Function
  | Type_MessageType string
  | Type_TypeParam
  | Type_Type
  | Type_Error
  | Type_AbstractType

text \<open>
  \<open>map[int64]*expr.Type\<close> followed by the nil-safe \<open>GetTypeKind()\<close>: a missing key, a
  nil \<open>*expr.Type\<close> and an unset oneof all give the nil type kind, \<open>None\<close>.
\<close>

type_synonym type_map = "64 word \<Rightarrow> type_kind option"

record checked_expr =
  TypeMap :: type_map
  Expr_root :: "expr option"

text \<open>\<open>filtering.Filter\<close>: a struct holding the pointer \<open>CheckedExpr\<close>.\<close>

record filtering_filter =
  CheckedExpr :: "checked_expr option"

definition GetTypeMap :: "checked_expr option \<Rightarrow> type_map" where
  "GetTypeMap c = (case c of None \<Rightarrow> (\<lambda>_. None) | Some ce \<Rightarrow> TypeMap ce)"

definition GetExpr :: "checked_expr option \<Rightarrow> expr option" where
  "GetExpr c = (case c of None \<Rightarrow> None | Some ce \<Rightarrow> Expr_root ce)"

text \<open>The nil-safe generated getters that the transpiler calls.\<close>

fun GetConstExpr :: "expr option \<Rightarrow> cel_constant option" where
  "GetConstExpr (Some (Expr i (Some (Expr_ConstExpr c)))) = Some c"
| "GetConstExpr e = None"

fun GetStringValue :: "cel_constant option \<Rightarrow> string" where
  "GetStringValue (Some (Constant (Some (Constant_StringValue s)))) = s"
| "GetStringValue c = []"

subsection \<open>Function names (go.einride.tech/aip/filtering)\<close>

definition FunctionNot :: string where "FunctionNot = ''NOT''"
definition FunctionAnd :: string where "FunctionAnd = ''AND''"
definition FunctionOr :: string where "FunctionOr = ''OR''"
definition FunctionEquals :: string where "FunctionEquals = ''=''"
definition FunctionNotEquals :: string where "FunctionNotEquals = ''!=''"
definition FunctionLessThan :: string where "FunctionLessThan = ''<''"
definition FunctionLessEquals :: string where "FunctionLessEquals = ''<=''"
definition FunctionGreaterThan :: string where "FunctionGreaterThan = ''>''"
definition FunctionGreaterEquals :: string where "FunctionGreaterEquals = ''>=''"
definition FunctionHas :: string where "FunctionHas = '':''"

subsection \<open>Outcomes\<close>

text \<open>
  Every failure of the transpiler is a gRPC status with the code \<open>InvalidArgument\<close> and
  a message, or a run-time panic on a nil pointer. \<open>Foreign\<close> stands for an error
  returned by a collaborator (the filter parser), passed on unchanged.
\<close>

datatype failure =
    InvalidArgument string
  | NilDereference
  | Foreign string

subsection \<open>Query operands and the query builder (cloud.google.com/go/firestore)\<close>

text \<open>The \<open>interface{}\<close> values given to \<open>Where\<close> and \<open>StartAfter\<close>.\<close>

datatype val =
    VNil
  | VBool bool
  | VBytes "8 word list"
  | VDouble "64 word"
  | VInt64 "64 word"
  | VString string
  | VUint64 "64 word"

datatype direction = Asc | Desc

text \<open>
  The builder is the boundary of the transpiler: each method returns a new query value.
  The model keeps the clauses in the order of the calls; \<open>startAfterVals\<close> is \<open>None\<close>
  until \<open>StartAfter\<close> is called and \<open>limit\<close> is \<open>None\<close> until \<open>Limit\<close> is called.
\<close>

record fsquery =
  collectionPath :: string
  filters :: "(string \<times> string \<times> val) list"
  orders :: "(string \<times> direction) list"
  startAfterVals :: "val list option"
  limit :: "int option"

definition Collection :: "string \<Rightarrow> fsquery" where
  "Collection p =
     \<lparr>collectionPath = p, filters = [], orders = [], startAfterVals = None, limit = None\<rparr>"

text \<open>
  \<open>Where\<close> and \<open>OrderBy\<close> take the field path as a string and parse it with the
  builder's \<open>parseDotSeparatedString\<close>: a string that holds one of the runes \<open>~*/[]\<close> is
  refused; otherwise the string is cut at its dots (\<open>strings.Split\<close>), and it is refused
  when a component is empty, as in the empty string or after a trailing dot. For a
  refused path the method adds no clause. It also stores an error in the query, which
  is left out here: no other field of the query depends on it, and it is not read
  before the query is run.
\<close>

fun split_dots :: "string \<Rightarrow> string list" where
  "split_dots [] = [[]]"
| "split_dots (c # cs) =
     (if c = CHR ''.'' then [] # split_dots cs
      else (case split_dots cs of [] \<Rightarrow> [[c]] | s # ss \<Rightarrow> (c # s) # ss))"

definition parseDotSeparatedString :: "string \<Rightarrow> string list option" where
  "parseDotSeparatedString s =
     (if list_ex (\<lambda>c. c \<in> set ''~*/[]'') s then None
      else if list_ex (\<lambda>component. component = []) (split_dots s) then None
      else Some (split_dots s))"

definition Where :: "fsquery \<Rightarrow> string \<Rightarrow> string \<Rightarrow> val \<Rightarrow> fsquery" where
  "Where fq path op v =
     (case parseDotSeparatedString path of
        None \<Rightarrow> fq
      | Some fp \<Rightarrow> fq\<lparr>filters := filters fq @ [(path, op, v)]\<rparr>)"

definition OrderBy :: "fsquery \<Rightarrow> string \<Rightarrow> direction \<Rightarrow> fsquery" where
  "OrderBy fq path dir =
     (case parseDotSeparatedString path of
        None \<Rightarrow> fq
      | Some fp \<Rightarrow> fq\<lparr>orders := orders fq @ [(path, dir)]\<rparr>)"

definition StartAfter :: "fsquery \<Rightarrow> val list \<Rightarrow> fsquery" where
  "StartAfter fq vs = fq\<lparr>startAfterVals := Some vs\<rparr>"

definition Limit :: "fsquery \<Rightarrow> int \<Rightarrow> fsquery" where
  "Limit fq n = fq\<lparr>limit := Some n\<rparr>"

text \<open>\<open>firestore.DocumentID\<close>, the special field name of the document identifier.\<close>

definition DocumentID :: string where
  "DocumentID = ''__name__''"

subsection \<open>List requests\<close>

text \<open>
  The interface \<open>ListRequest\<close> with its four getters, as the record of what they return.
  The page size is an \<open>int32\<close>: a 32-bit word, compared through its signed value.
\<close>

record list_request =
  GetParent :: string
  GetPageSize :: "32 word"
  GetPageToken :: string
  GetFilter :: string

subsection \<open>Library functions taken as parameters\<close>

text \<open>
  \<open>strcase.ToCamel\<close> (github.com/iancoleman/strcase), the \<open>%v\<close> rendering of an
  expression by \<open>fmt\<close> and \<open>filtering.ParseFilter\<close> (with the declarations that the
  transpiler holds) are not code of this repository. The model takes them as
  parameters, so every theorem below holds for whatever they compute.
\<close>

record lib =
  ToCamel :: "string \<Rightarrow> string"
  FormatExpr :: "expr option \<Rightarrow> string"
  ParseFilter :: "list_request \<Rightarrow> failure + filtering_filter"

section \<open>filterstore/filterstore.go\<close>

subsection \<open>operator\<close>

text \<open>The parameter \<open>not\<close> of the source is \<open>neg\<close> here and below.\<close>

definition operator :: "string \<Rightarrow> bool \<Rightarrow> failure + string" where
  "operator function neg =
     (if function = FunctionEquals then (if neg then Inr ''!='' else Inr ''=='')
      else if function = FunctionNotEquals then (if neg then Inr ''=='' else Inr ''!='')
      else if function = FunctionLessThan then (if neg then Inr ''>='' else Inr ''<'')
      else if function = FunctionLessEquals then (if neg then Inr ''>'' else Inr ''<='')
      else if function = FunctionGreaterThan then (if neg then Inr ''<='' else Inr ''>'')
      else if function = FunctionGreaterEquals then (if neg then Inr ''<'' else Inr ''>='')
      else Inl (InvalidArgument
        (''no Firestore operator for '' @ (if neg then ''NOT '' else []) @ function)))"

subsection \<open>toPath\<close>

fun toPath :: "lib \<Rightarrow> expr option \<Rightarrow> failure + string" where
  "toPath L (Some (Expr i (Some (Expr_SelectExpr operand field)))) =
     (case toPath L operand of
        Inl err \<Rightarrow> Inl err
      | Inr p \<Rightarrow> Inr (p @ ''.'' @ ToCamel L field))"
| "toPath L (Some (Expr i (Some (Expr_IdentExpr name)))) = Inr (ToCamel L name)"
| "toPath L e =
     Inl (InvalidArgument (''unable to get path for expression: '' @ FormatExpr L e))"

subsection \<open>unwrapConst\<close>

text \<open>
  \<open>c.ConstantKind\<close> reads a field through the pointer \<open>c\<close>: on a nil \<open>c\<close> the Go run
  time panics. The getters in the branches are nil-safe and return the payload.
\<close>

fun unwrapConst :: "cel_constant option \<Rightarrow> failure + val" where
  "unwrapConst None = Inl NilDereference"
| "unwrapConst (Some (Constant (Some (Constant_BoolValue b)))) = Inr (VBool b)"
| "unwrapConst (Some (Constant (Some (Constant_BytesValue b)))) = Inr (VBytes b)"
| "unwrapConst (Some (Constant (Some (Constant_DoubleValue d)))) = Inr (VDouble d)"
| "unwrapConst (Some (Constant (Some (Constant_Int64Value n)))) = Inr (VInt64 n)"
| "unwrapConst (Some (Constant (Some (Constant_StringValue s)))) = Inr (VString s)"
| "unwrapConst (Some (Constant (Some (Constant_Uint64Value n)))) = Inr (VUint64 n)"
| "unwrapConst (Some (Constant k)) = Inr VNil"

subsection \<open>The query state\<close>

text \<open>
  The struct \<open>query\<close>. Its field \<open>subqueries\<close> is never read or written and is left out.
  The empty string in \<open>inequality\<close> means that no inequality field is set.
\<close>

record query =
  q :: fsquery
  types :: type_map
  inequality :: string
  startAfter :: "val list"

subsection \<open>setInequality\<close>

definition setInequality :: "query \<Rightarrow> string \<Rightarrow> failure + query" where
  "setInequality st path =
     (if inequality st = [] then Inr (st\<lparr>inequality := path\<rparr>)
      else if inequality st \<noteq> path then
        Inl (InvalidArgument ''inequality can only be used on a single field'')
      else Inr st)"

subsection \<open>transpileHas\<close>

text \<open>
  \<open>strings.Index(s, ".")\<close>: the position of the first dot, or \<open>-1\<close> when there is none;
  \<open>s[i:]\<close> is \<open>drop i s\<close>.
\<close>

definition Index_dot :: "string \<Rightarrow> int" where
  "Index_dot s =
     (if CHR ''.'' \<in> set s then int (length (takeWhile (\<lambda>c. c \<noteq> CHR ''.'') s)) else - 1)"

text \<open>
  \<open>e.Args[0].Id\<close> reads a field through the pointer \<open>e.Args[0]\<close> and panics when it is
  nil. The switch on the type kind has empty cases for lists and maps, which fall out
  of the switch to the final error, as every other kind does.
\<close>

definition transpileHas :: "lib \<Rightarrow> query \<Rightarrow> expr option list \<Rightarrow> bool \<Rightarrow> failure + query" where
  "transpileHas L st args neg =
     (if length args \<noteq> 2 then Inl (InvalidArgument '': requires two arguments'')
      else case args ! 0 of
        None \<Rightarrow> Inl NilDereference
      | Some a0 \<Rightarrow>
         (case types st (expr_id a0) of
            Some (Type_MessageType m) \<Rightarrow>
              (case toPath L (args ! 0) of
                 Inl err \<Rightarrow> Inl err
               | Inr path0 \<Rightarrow>
                  (let path1 = path0 @ ''.'' @
                         ToCamel L (GetStringValue (GetConstExpr (args ! 1)));
                       path = drop (nat (Index_dot path1 + 1)) path1
                   in if neg then Inr (st\<lparr>q := Where (q st) path ''=='' VNil\<rparr>)
                      else case setInequality st path of
                        Inl err \<Rightarrow> Inl err
                      | Inr st1 \<Rightarrow>
                          Inr (st1\<lparr>startAfter := startAfter st1 @ [VNil],
                                    q := OrderBy (q st1) path Asc\<rparr>)))
          | _ \<Rightarrow> Inl (InvalidArgument '': must be used on a message, map or list'')))"

subsection \<open>transpileEquality\<close>

definition transpileEquality ::
  "lib \<Rightarrow> query \<Rightarrow> string \<Rightarrow> expr option list \<Rightarrow> bool \<Rightarrow> failure + query" where
  "transpileEquality L st function args neg =
     (if length args \<noteq> 2 then
        Inl (InvalidArgument (function @ '' requires two arguments''))
      else case operator function neg of
        Inl err \<Rightarrow> Inl err
      | Inr op \<Rightarrow>
         (case toPath L (args ! 0) of
            Inl err \<Rightarrow> Inl err
          | Inr path \<Rightarrow>
             (case (if op \<noteq> ''=='' then setInequality st path else Inr st) of
                Inl err \<Rightarrow> Inl err
              | Inr st1 \<Rightarrow>
                 (case unwrapConst (GetConstExpr (args ! 1)) of
                    Inl err \<Rightarrow> Inl err
                  | Inr v \<Rightarrow> Inr (st1\<lparr>q := Where (q st1) path op v\<rparr>)))))"

subsection \<open>transpileCall and transpile\<close>

text \<open>
  The two methods call each other. The arguments of a call are smaller than the call,
  which is the measure of the termination proof. The log line of the default case of
  \<open>transpile\<close> is not part of the result.
\<close>

function transpile :: "lib \<Rightarrow> query \<Rightarrow> expr option \<Rightarrow> bool \<Rightarrow> failure + query"
  and transpileCall ::
    "lib \<Rightarrow> query \<Rightarrow> string \<Rightarrow> expr option list \<Rightarrow> bool \<Rightarrow> failure + query" where
  "transpile L st None neg = Inr st"
| "transpile L st (Some (Expr i (Some (Expr_CallExpr function args)))) neg =
     transpileCall L st function args neg"
| "transpile L st (Some (Expr i None)) neg =
     Inl (InvalidArgument ''invalid filter expression'')"
| "transpile L st (Some (Expr i (Some (Expr_ConstExpr c)))) neg =
     Inl (InvalidArgument ''invalid filter expression'')"
| "transpile L st (Some (Expr i (Some (Expr_IdentExpr n)))) neg =
     Inl (InvalidArgument ''invalid filter expression'')"
| "transpile L st (Some (Expr i (Some (Expr_SelectExpr operand field)))) neg =
     Inl (InvalidArgument ''invalid filter expression'')"
| "transpile L st (Some (Expr i (Some Expr_ListExpr))) neg =
     Inl (InvalidArgument ''invalid filter expression'')"
| "transpile L st (Some (Expr i (Some Expr_StructExpr))) neg =
     Inl (InvalidArgument ''invalid filter expression'')"
| "transpile L st (Some (Expr i (Some Expr_ComprehensionExpr))) neg =
     Inl (InvalidArgument ''invalid filter expression'')"
| "transpileCall L st function args neg =
     (if function = FunctionNot then
        (if length args \<noteq> 1 then Inl (InvalidArgument ''NOT requires one argument'')
         else transpile L st (args ! 0) (\<not> neg))
      else if function = FunctionHas then transpileHas L st args neg
      else if function \<in> {FunctionEquals, FunctionNotEquals, FunctionLessThan,
                 FunctionLessEquals, FunctionGreaterThan, FunctionGreaterEquals}
        then transpileEquality L st function args neg
      else if function = FunctionAnd then
        (if length args \<noteq> 2 then Inl (InvalidArgument ''AND requires two arguments'')
         else case transpile L st (args ! 0) neg of
           Inl err \<Rightarrow> Inl err
         | Inr st1 \<Rightarrow> transpile L st1 (args ! 1) neg)
      else Inl (InvalidArgument (''unknown filter function '' @ function)))"
  by pat_completeness auto
termination
proof -
  have arg_less: "2 * size_option size (args ! i) < 2 * size_list (size_option size) args + 3"
    if "i < length args" for i and args :: "expr option list"
  proof -
    from that have "args ! i \<in> set args" by simp
    then have "size_option size (args ! i) \<le> size_list (size_option size) args"
      by (rule size_list_estimation') simp
    then show ?thesis by simp
  qed
  show ?thesis
    by (relation "measure (\<lambda>x. case x of
          Inl (L, st, e, neg) \<Rightarrow> 2 * size_option size e
        | Inr (L, st, function, args, neg) \<Rightarrow> 2 * size_list (size_option size) args + 3)")
      (auto simp: arg_less)
qed

subsection \<open>Transpile\<close>

text \<open>
  The entry point up to the query that it hands to \<open>Documents(ctx).GetAll()\<close>; running
  the query and decoding the documents belong to the store. \<open>int(pageSize)\<close> of an
  \<open>int32\<close> is its signed value.
\<close>

definition Transpile ::
  "lib \<Rightarrow> string \<Rightarrow> string \<Rightarrow> string \<Rightarrow> 32 word \<Rightarrow> filtering_filter \<Rightarrow>
     failure + fsquery" where
  "Transpile L parent collection pageToken pageSize flt =
     (let st0 = \<lparr>q = Limit (Collection (parent @ ''/'' @ collection)) (sint pageSize),
                 types = GetTypeMap (CheckedExpr flt),
                 inequality = [], startAfter = []\<rparr>
      in case transpile L st0 (GetExpr (CheckedExpr flt)) False of
        Inl err \<Rightarrow> Inl err
      | Inr st1 \<Rightarrow>
         (let st2 = (if pageToken \<noteq> [] then
                       st1\<lparr>q := OrderBy (q st1) DocumentID Asc,
                           startAfter := startAfter st1 @ [VString pageToken]\<rparr>
                     else st1);
              st3 = (if length (startAfter st2) > 0 then
                       st2\<lparr>q := StartAfter (q st2) (startAfter st2)\<rparr>
                     else st2)
          in Inr (q st3)))"

section \<open>The transpiler with page size validation (unnamed source file part_000)\<close>

text \<open>
  This file declares \<open>query\<close> and \<open>toPath\<close> as the file above does; its other functions
  differ and carry the suffix \<open>0\<close> here. Its function \<open>operation\<close> is never called.
\<close>

text \<open>
  The struct \<open>transpiler\<close>; \<open>client\<close> and \<open>decls\<close> are handles of the store and of the
  filter parser.
\<close>

record transpiler =
  collection :: string
  defaultPageSize :: "32 word"
  maxPageSize :: "32 word"

definition transpileHas0 :: "lib \<Rightarrow> query \<Rightarrow> expr option list \<Rightarrow> bool \<Rightarrow> failure + query" where
  "transpileHas0 L st args neg =
     (if length args \<noteq> 2 then Inl (InvalidArgument '': requires two arguments'')
      else case args ! 0 of
        None \<Rightarrow> Inl NilDereference
      | Some a0 \<Rightarrow>
         (case types st (expr_id a0) of
            Some (Type_MessageType m) \<Rightarrow>
              (case toPath L (args ! 0) of
                 Inl err \<Rightarrow> Inl err
               | Inr path0 \<Rightarrow>
                  (let path1 = path0 @ ''.'' @
                         ToCamel L (GetStringValue (GetConstExpr (args ! 1)));
                       path = drop (nat (Index_dot path1 + 1)) path1
                   in if neg then Inr (st\<lparr>q := Where (q st) path ''=='' VNil\<rparr>)
                      else if inequality st = [] then
                        Inr (st\<lparr>inequality := path,
                                 startAfter := startAfter st @ [VNil],
                                 q := OrderBy (q st) path Asc\<rparr>)
                      else if inequality st \<noteq> path then
                        Inl (InvalidArgument ''inequality can only be used on a single field'')
                      else Inr (st\<lparr>startAfter := startAfter st @ [VNil],
                                    q := OrderBy (q st) path Asc\<rparr>)))
          | _ \<Rightarrow> Inl (InvalidArgument ''has must be used on a message, map or list'')))"

text \<open>The comparison procedure of this file is a stub: it returns nil.\<close>

definition transpileEquality0 ::
  "lib \<Rightarrow> query \<Rightarrow> string \<Rightarrow> expr option list \<Rightarrow> bool \<Rightarrow> failure + query" where
  "transpileEquality0 L st function args neg = Inr st"

function transpile0 :: "lib \<Rightarrow> query \<Rightarrow> expr option \<Rightarrow> bool \<Rightarrow> failure + query"
  and transpileCall0 ::
    "lib \<Rightarrow> query \<Rightarrow> string \<Rightarrow> expr option list \<Rightarrow> bool \<Rightarrow> failure + query" where
  "transpile0 L st None neg = Inr st"
| "transpile0 L st (Some (Expr i (Some (Expr_CallExpr function args)))) neg =
     transpileCall0 L st function args neg"
| "transpile0 L st (Some (Expr i None)) neg =
     Inl (InvalidArgument ''invalid filter expression'')"
| "transpile0 L st (Some (Expr i (Some (Expr_ConstExpr c)))) neg =
     Inl (InvalidArgument ''invalid filter expression'')"
| "transpile0 L st (Some (Expr i (Some (Expr_IdentExpr n)))) neg =
     Inl (InvalidArgument ''invalid filter expression'')"
| "transpile0 L st (Some (Expr i (Some (Expr_SelectExpr operand field)))) neg =
     Inl (InvalidArgument ''invalid filter expression'')"
| "transpile0 L st (Some (Expr i (Some Expr_ListExpr))) neg =
     Inl (InvalidArgument ''invalid filter expression'')"
| "transpile0 L st (Some (Expr i (Some Expr_StructExpr))) neg =
     Inl (InvalidArgument ''invalid filter expression'')"
| "transpile0 L st (Some (Expr i (Some Expr_ComprehensionExpr))) neg =
     Inl (InvalidArgument ''invalid filter expression'')"
| "transpileCall0 L st function args neg =
     (if function = FunctionNot then
        (if length args \<noteq> 1 then Inl (InvalidArgument ''NOT requires one argument'')
         else transpile0 L st (args ! 0) (\<not> neg))
      else if function = FunctionHas then transpileHas0 L st args neg
      else if function \<in> {FunctionEquals, FunctionNotEquals, FunctionLessThan,
                 FunctionLessEquals, FunctionGreaterThan, FunctionGreaterEquals}
        then transpileEquality0 L st function args neg
      else Inl (InvalidArgument (''unknown filter function '' @ function)))"
  by pat_completeness auto
termination
proof -
  have arg_less: "2 * size_option size (args ! i) < 2 * size_list (size_option size) args + 3"
    if "i < length args" for i and args :: "expr option list"
  proof -
    from that have "args ! i \<in> set args" by simp
    then have "size_option size (args ! i) \<le> size_list (size_option size) args"
      by (rule size_list_estimation') simp
    then show ?thesis by simp
  qed
  show ?thesis
    by (relation "measure (\<lambda>x. case x of
          Inl (L, st, e, neg) \<Rightarrow> 2 * size_option size e
        | Inr (L, st, function, args, neg) \<Rightarrow> 2 * size_list (size_option size) args + 3)")
      (auto simp: arg_less)
qed

text \<open>
  The switch at the head of \<open>Transpile\<close>: the error it returns, or the value of the
  local variable \<open>pageSize\<close> after it. Comparisons of \<open>int32\<close> are signed.
\<close>

definition Transpile0_pageSize :: "transpiler \<Rightarrow> list_request \<Rightarrow> failure + 32 word" where
  "Transpile0_pageSize t req =
     (let pageSize = GetPageSize req
      in if sint pageSize < 0 then Inl (InvalidArgument ''page size cannot be negative'')
         else if pageSize = 0 then Inr (defaultPageSize t)
         else if sint (GetPageSize req) > sint (maxPageSize t) then Inr (maxPageSize t)
         else Inr pageSize)"

text \<open>
  The entry point up to the query that it hands to \<open>Documents(ctx).GetAll()\<close>. The
  local \<open>pageSize\<close> is not read after the switch: this file sets no limit on the query.
\<close>

definition Transpile0 :: "lib \<Rightarrow> transpiler \<Rightarrow> list_request \<Rightarrow> failure + fsquery" where
  "Transpile0 L t req =
     (case Transpile0_pageSize t req of
        Inl err \<Rightarrow> Inl err
      | Inr pageSize \<Rightarrow>
         (case ParseFilter L req of
            Inl err \<Rightarrow> Inl err
          | Inr flt \<Rightarrow>
             (let st0 = \<lparr>q = Collection (GetParent req @ ''/'' @ collection t),
                         types = GetTypeMap (CheckedExpr flt),
                         inequality = [], startAfter = []\<rparr>
              in case transpile0 L st0 (GetExpr (CheckedExpr flt)) False of
                Inl err \<Rightarrow> Inl err
              | Inr st1 \<Rightarrow>
                 (let st2 = (if GetPageToken req \<noteq> [] then
                               st1\<lparr>q := OrderBy (q st1) DocumentID Asc,
                                   startAfter := startAfter st1 @ [VString (GetPageToken req)]\<rparr>
                             else st1);
                      st3 = (if length (startAfter st2) > 0 then
                               st2\<lparr>q := StartAfter (q st2) (startAfter st2)\<rparr>
                             else st2)
                  in Inr (q st3)))))"

section \<open>Notions used to state the properties\<close>

text \<open>The six relational function names.\<close>

definition relational :: "string set" where
  "relational = {FunctionEquals, FunctionNotEquals, FunctionLessThan,
                 FunctionLessEquals, FunctionGreaterThan, FunctionGreaterEquals}"

text \<open>
  What a comparison operator of the store means, on integers: the yardstick for
  "logical complement".
\<close>

definition op_holds :: "string \<Rightarrow> int \<Rightarrow> int \<Rightarrow> bool" where
  "op_holds op a b =
     (if op = ''=='' then a = b
      else if op = ''!='' then a \<noteq> b
      else if op = ''<'' then a < b
      else if op = ''<='' then a \<le> b
      else if op = ''>'' then a > b
      else if op = ''>='' then a \<ge> b
      else False)"

text \<open>
  A chain of selections: \<open>select_chain e [(i1, f1), ..., (ik, fk)]\<close> selects \<open>f1\<close> on \<open>e\<close>,
  then \<open>f2\<close> on the result, and so on; the last selection is the outermost node.
\<close>

primrec select_chain :: "expr option \<Rightarrow> (64 word \<times> string) list \<Rightarrow> expr option" where
  "select_chain e [] = e"
| "select_chain e (s # ss) =
     select_chain (Some (Expr (fst s) (Some (Expr_SelectExpr e (snd s))))) ss"

text \<open>Segments joined by dots; \<open>split_dots\<close> above cuts a string at its dots.\<close>

fun join_dots :: "string list \<Rightarrow> string" where
  "join_dots [] = []"
| "join_dots [s] = s"
| "join_dots (s # ss) = s @ ''.'' @ join_dots ss"

fun is_ident_or_select :: "expr option \<Rightarrow> bool" where
  "is_ident_or_select (Some (Expr i (Some (Expr_IdentExpr n)))) = True"
| "is_ident_or_select (Some (Expr i (Some (Expr_SelectExpr operand field)))) = True"
| "is_ident_or_select e = False"

text \<open>
  An instance of the library parameters for the examples: a casing that drops dots and
  changes nothing else, a fixed rendering, and a parser that rejects every request.
\<close>

definition sample_lib :: lib where
  "sample_lib =
     \<lparr>ToCamel = filter (\<lambda>c. c \<noteq> CHR ''.''), FormatExpr = (\<lambda>e. ''<expr>''),
      ParseFilter = (\<lambda>req. Inl (Foreign ''no parser''))\<rparr>"

text \<open>A sequence of calls of \<open>setInequality\<close> on one query state, up to the first failure.\<close>

fun claims :: "query \<Rightarrow> string list \<Rightarrow> failure + query" where
  "claims st [] = Inr st"
| "claims st (p # ps) =
     (case setInequality st p of Inl err \<Rightarrow> Inl err | Inr st1 \<Rightarrow> claims st1 ps)"

text \<open>Example data: a new query state, leaf expressions, and the filter \<open>NOT has(profile, "bio")\<close>.\<close>

definition fresh :: query where
  "fresh = \<lparr>q = Collection ''shelves/1/books'',
            types = (\<lambda>i. if i = 3 then Some (Type_MessageType ''library.Profile'') else None),
            inequality = [], startAfter = []\<rparr>"

definition ident :: "64 word \<Rightarrow> string \<Rightarrow> expr option" where
  "ident i name = Some (Expr i (Some (Expr_IdentExpr name)))"

definition const_int :: "64 word \<Rightarrow> 64 word \<Rightarrow> expr option" where
  "const_int i n = Some (Expr i (Some (Expr_ConstExpr (Constant (Some (Constant_Int64Value n))))))"

definition const_string :: "64 word \<Rightarrow> string \<Rightarrow> expr option" where
  "const_string i s = Some (Expr i (Some (Expr_ConstExpr (Constant (Some (Constant_StringValue s))))))"

definition not_has_profile_bio :: filtering_filter where
  "not_has_profile_bio =
     \<lparr>CheckedExpr = Some
        \<lparr>TypeMap = (\<lambda>i. if i = 3 then Some (Type_MessageType ''library.Profile'') else None),
         Expr_root = Some (Expr 1 (Some (Expr_CallExpr FunctionNot
           [Some (Expr 2 (Some (Expr_CallExpr FunctionHas
              [Some (Expr 3 (Some (Expr_IdentExpr ''profile''))),
               Some (Expr 4 (Some (Expr_ConstExpr
                 (Constant (Some (Constant_StringValue ''bio''))))))])))])))\<rparr>\<rparr>"

text \<open>The filter \<open>has(profile, "bio")\<close>, and the library with a parser that returns a given filter.\<close>

definition has_profile_bio :: filtering_filter where
  "has_profile_bio =
     \<lparr>CheckedExpr = Some
        \<lparr>TypeMap = (\<lambda>i. if i = 3 then Some (Type_MessageType ''library.Profile'') else None),
         Expr_root = Some (Expr 2 (Some (Expr_CallExpr FunctionHas
              [ident 3 ''profile'', const_string 4 ''bio''])))\<rparr>\<rparr>"

text \<open>
  Existence checks whose second argument names no field: the identifier \<open>bio\<close> in
  place of a string constant, and the empty string constant.
\<close>

definition has_profile_unquoted :: filtering_filter where
  "has_profile_unquoted =
     \<lparr>CheckedExpr = Some
        \<lparr>TypeMap = (\<lambda>i. if i = 3 then Some (Type_MessageType ''library.Profile'') else None),
         Expr_root = Some (Expr 2 (Some (Expr_CallExpr FunctionHas
              [ident 3 ''profile'', ident 4 ''bio''])))\<rparr>\<rparr>"

definition has_profile_empty :: filtering_filter where
  "has_profile_empty =
     \<lparr>CheckedExpr = Some
        \<lparr>TypeMap = (\<lambda>i. if i = 3 then Some (Type_MessageType ''library.Profile'') else None),
         Expr_root = Some (Expr 2 (Some (Expr_CallExpr FunctionHas
              [ident 3 ''profile'', const_string 4 []])))\<rparr>\<rparr>"


definition parsing_lib :: "filtering_filter \<Rightarrow> lib" where
  "parsing_lib flt = sample_lib\<lparr>ParseFilter := (\<lambda>req. Inr flt)\<rparr>"

section \<open>Basic facts\<close>

lemmas Function_defs =
  FunctionNot_def FunctionAnd_def FunctionOr_def FunctionEquals_def FunctionNotEquals_def
  FunctionLessThan_def FunctionLessEquals_def FunctionGreaterThan_def
  FunctionGreaterEquals_def FunctionHas_def

lemma toPath_select_chain:
  "toPath L (select_chain e sels) =
     (case toPath L e of
        Inl err \<Rightarrow> Inl err
      | Inr p \<Rightarrow> Inr (p @ concat (map (\<lambda>s. ''.'' @ ToCamel L (snd s)) sels)))"
  by (induction sels arbitrary: e) (auto split: sum.splits)

lemma join_dots_Cons: "join_dots (s # ss) = s @ concat (map (\<lambda>x. ''.'' @ x) ss)"
  by (induction ss arbitrary: s) auto

lemma split_dots_nonempty: "split_dots s \<noteq> []"
  by (induction s) (auto split: list.splits)

lemma split_dots_append:
  "CHR ''.'' \<notin> set s \<Longrightarrow>
     split_dots (s @ t) = (case split_dots t of [] \<Rightarrow> [s] | x # xs \<Rightarrow> (s @ x) # xs)"
  using split_dots_nonempty[of t] by (induction s) (auto split: list.splits)

lemma split_dots_segment: "CHR ''.'' \<notin> set s \<Longrightarrow> split_dots s = [s]"
  by (induction s) (auto split: list.splits)

lemma split_join_dots:
  "ss \<noteq> [] \<Longrightarrow> \<forall>s \<in> set ss. CHR ''.'' \<notin> set s \<Longrightarrow> split_dots (join_dots ss) = ss"
proof (induction ss rule: join_dots.induct)
  case 1
  then show ?case by simp
next
  case (2 s)
  then show ?case by (simp add: split_dots_segment)
next
  case (3 s v va)
  then show ?case by (simp add: split_dots_append)
qed

lemma toPath_not_path:
  "\<not> is_ident_or_select e \<Longrightarrow>
     toPath L e = Inl (InvalidArgument (''unable to get path for expression: '' @ FormatExpr L e))"
  by (cases "(L, e)" rule: toPath.cases) auto

declare transpileCall.simps [simp del]

lemmas fixture_defs = fresh_def ident_def const_int_def const_string_def sample_lib_def

lemma unwrapConst_Some: "\<exists>v. unwrapConst (Some c) = Inr v"
  by (cases "Some c" rule: unwrapConst.cases) auto

lemma operator_eq_iff:
  "f \<in> relational \<Longrightarrow>
     operator f neg = Inr ''=='' \<longleftrightarrow>
       (f = FunctionEquals \<and> \<not> neg) \<or> (f = FunctionNotEquals \<and> neg)"
  by (auto simp: relational_def operator_def Function_defs)

lemma operator_relational: "f \<in> relational \<Longrightarrow> \<exists>op. operator f neg = Inr op"
  by (auto simp: relational_def operator_def Function_defs)

lemma Index_dot_append:
  "CHR ''.'' \<notin> set s \<Longrightarrow> Index_dot (s @ CHR ''.'' # t) = int (length s)"
  by (simp add: Index_dot_def takeWhile_append)

lemma claims_set:
  "inequality st = path \<Longrightarrow> path \<noteq> [] \<Longrightarrow>
     claims st ps =
       (if \<forall>p \<in> set ps. p = path then Inr st
        else Inl (InvalidArgument ''inequality can only be used on a single field''))"
  by (induction ps) (auto simp: setInequality_def)

lemma transpileCall_rel:
  "f \<in> relational \<Longrightarrow> transpileCall L st f args neg = transpileEquality L st f args neg"
  by (auto simp: relational_def Function_defs transpileCall.simps)

lemma transpileCall_And:
  "transpileCall L st FunctionAnd [e1, e2] neg =
     (case transpile L st e1 neg of Inl err \<Rightarrow> Inl err | Inr st1 \<Rightarrow> transpile L st1 e2 neg)"
  by (simp add: Function_defs transpileCall.simps split: sum.splits)

lemma transpileCall_Has:
  "transpileCall L st FunctionHas args neg = transpileHas L st args neg"
  by (simp add: Function_defs transpileCall.simps)

lemma transpileCall_Not:
  "transpileCall L st FunctionNot [e] neg = transpile L st e (\<not> neg)"
  by (simp add: Function_defs transpileCall.simps)

lemma transpileEquality_claiming:
  assumes "f \<in> relational" and "operator f neg \<noteq> Inr ''=='' " and "toPath L a = Inr p"
    and "GetConstExpr b \<noteq> None"
  shows "\<exists>op v. transpileEquality L st f [a, b] neg =
           (case setInequality st p of
              Inl err \<Rightarrow> Inl err
            | Inr st1 \<Rightarrow> Inr (st1\<lparr>q := Where (q st1) p op v\<rparr>))"
proof -
  from assms(1) obtain op where op: "operator f neg = Inr op"
    using operator_relational by blast
  from assms(4) obtain c where c: "GetConstExpr b = Some c" by auto
  obtain v where v: "unwrapConst (Some c) = Inr v"
    using unwrapConst_Some by blast
  have "transpileEquality L st f [a, b] neg =
           (case setInequality st p of
              Inl err \<Rightarrow> Inl err
            | Inr st1 \<Rightarrow> Inr (st1\<lparr>q := Where (q st1) p op v\<rparr>))"
    using op v c assms(2,3) by (simp add: transpileEquality_def split: sum.splits)
  then show ?thesis by blast
qed

lemma transpileHas_claiming:
  assumes "types st (expr_id x) = Some (Type_MessageType m)" and "toPath L (Some x) = Inr px"
    and "p = drop (nat (Index_dot (px @ ''.'' @ ToCamel L (GetStringValue (GetConstExpr b))) + 1))
           (px @ ''.'' @ ToCamel L (GetStringValue (GetConstExpr b)))"
  shows "transpileHas L st [Some x, b] False =
           (case setInequality st p of
              Inl err \<Rightarrow> Inl err
            | Inr st1 \<Rightarrow> Inr (st1\<lparr>startAfter := startAfter st1 @ [VNil],
                                   q := OrderBy (q st1) p Asc\<rparr>))"
  using assms(1,2) unfolding assms(3) by (simp add: transpileHas_def Let_def cong: sum.case_cong)

text \<open>
  What one step of the walk does to the ordering clauses, to the cursor list and to the
  "start after" argument of the query.
\<close>

lemma Where_fields:
  "orders (Where fq path op v) = orders fq"
  "startAfterVals (Where fq path op v) = startAfterVals fq"
  by (simp_all add: Where_def split: option.splits)

lemma OrderBy_fields:
  "orders (OrderBy fq path dir) =
     orders fq @ (if parseDotSeparatedString path = None then [] else [(path, dir)])"
  "startAfterVals (OrderBy fq path dir) = startAfterVals fq"
  by (simp_all add: OrderBy_def split: option.splits)

lemma parse_DocumentID: "parseDotSeparatedString DocumentID \<noteq> None"
  by (simp add: parseDotSeparatedString_def DocumentID_def)

lemma transpileHas_step:
  assumes "transpileHas L st args neg = Inr st'"
  shows "(neg \<longrightarrow> orders (q st') = orders (q st) \<and> startAfter st' = startAfter st) \<and>
         (\<not> neg \<longrightarrow> (\<exists>path. orders (q st') =
              orders (q st) @ (if parseDotSeparatedString path = None then [] else [(path, Asc)]) \<and>
            startAfter st' = startAfter st @ [VNil])) \<and>
         startAfterVals (q st') = startAfterVals (q st)"
  using assms
  by (auto simp: transpileHas_def Let_def setInequality_def Where_fields OrderBy_fields
      split: if_splits option.splits type_kind.splits sum.splits)

lemma transpileEquality_step:
  assumes "transpileEquality L st f args neg = Inr st'"
  shows "orders (q st') = orders (q st) \<and> startAfter st' = startAfter st \<and>
         startAfterVals (q st') = startAfterVals (q st)"
  using assms
  by (auto simp: transpileEquality_def Let_def setInequality_def Where_fields
      split: if_splits sum.splits)

text \<open>
  A successful walk appends one null cursor for each existence check that is not
  negated, and an ascending ordering clause for each of their paths that the builder
  accepts; it never calls \<open>StartAfter\<close>.
\<close>

lemma walk_step:
  "transpile L st e neg = Inr st' \<Longrightarrow>
     \<exists>paths. orders (q st') = orders (q st) @
         map (\<lambda>p. (p, Asc)) (filter (\<lambda>p. parseDotSeparatedString p \<noteq> None) paths) \<and>
       startAfter st' = startAfter st @ replicate (length paths) VNil \<and>
       startAfterVals (q st') = startAfterVals (q st)"
  "transpileCall L st f args neg = Inr st' \<Longrightarrow>
     \<exists>paths. orders (q st') = orders (q st) @
         map (\<lambda>p. (p, Asc)) (filter (\<lambda>p. parseDotSeparatedString p \<noteq> None) paths) \<and>
       startAfter st' = startAfter st @ replicate (length paths) VNil \<and>
       startAfterVals (q st') = startAfterVals (q st)"
proof (induction L st e neg and L st f args neg arbitrary: st' and st' rule: transpile_transpileCall.induct)
  case (1 L st neg)
  then show ?case by (intro exI[of _ "[]"]) simp
next
  case (2 L st i fn args neg)
  then show ?case by simp
next
  case (10 L st fn args neg)
  consider (n) "fn = FunctionNot"
    | (h) "fn \<noteq> FunctionNot" "fn = FunctionHas"
    | (r) "fn \<noteq> FunctionNot" "fn \<noteq> FunctionHas" "fn \<in> relational"
    | (a) "fn \<noteq> FunctionNot" "fn \<noteq> FunctionHas" "fn \<notin> relational"
          "fn = FunctionAnd"
    | (o) "fn \<noteq> FunctionNot" "fn \<noteq> FunctionHas" "fn \<notin> relational"
          "fn \<noteq> FunctionAnd"
    by blast
  then show ?case
  proof cases
    case n
    with 10(4) have len: "\<not> length args \<noteq> 1"
      and w: "transpile L st (args ! 0) (\<not> neg) = Inr st'"
      by (auto simp: transpileCall.simps split: if_splits)
    from 10(1)[OF n len w] show ?thesis .
  next
    case h
    with 10(4) have "transpileHas L st args neg = Inr st'"
      by (simp add: transpileCall.simps)
    from transpileHas_step[OF this] show ?thesis
    proof (cases neg)
      case True
      with \<open>_ \<and> _ \<and> _\<close> show ?thesis by (intro exI[of _ "[]"]) simp
    next
      case False
      with \<open>_ \<and> _ \<and> _\<close> obtain path where
        "orders (q st') =
           orders (q st) @ (if parseDotSeparatedString path = None then [] else [(path, Asc)])"
        "startAfter st' = startAfter st @ [VNil]"
        "startAfterVals (q st') = startAfterVals (q st)"
        by blast
      then show ?thesis by (intro exI[of _ "[path]"]) simp
    qed
  next
    case r
    with 10(4) have "transpileEquality L st fn args neg = Inr st'"
      by (simp add: transpileCall.simps relational_def)
    from transpileEquality_step[OF this] show ?thesis by (intro exI[of _ "[]"]) simp
  next
    case a
    from a(3) have nr: "fn \<notin> {FunctionEquals, FunctionNotEquals, FunctionLessThan,
                 FunctionLessEquals, FunctionGreaterThan, FunctionGreaterEquals}"
      by (simp add: relational_def)
    from 10(4) a nr have len: "\<not> length args \<noteq> 2"
      by (auto simp: transpileCall.simps split: if_splits)
    with 10(4) a nr obtain st1 where w1: "transpile L st (args ! 0) neg = Inr st1"
      and w2: "transpile L st1 (args ! 1) neg = Inr st'"
      by (auto simp: transpileCall.simps split: if_splits sum.splits)
    from 10(2)[OF a(1,2) nr a(4) len w1] obtain ps1 where
      s1: "orders (q st1) = orders (q st) @
             map (\<lambda>p. (p, Asc)) (filter (\<lambda>p. parseDotSeparatedString p \<noteq> None) ps1)"
        "startAfter st1 = startAfter st @ replicate (length ps1) VNil"
        "startAfterVals (q st1) = startAfterVals (q st)"
      by blast
    from 10(3)[OF a(1,2) nr a(4) len w1 w2] obtain ps2 where
      s2: "orders (q st') = orders (q st1) @
             map (\<lambda>p. (p, Asc)) (filter (\<lambda>p. parseDotSeparatedString p \<noteq> None) ps2)"
        "startAfter st' = startAfter st1 @ replicate (length ps2) VNil"
        "startAfterVals (q st') = startAfterVals (q st1)"
      by blast
    from s1 s2 show ?thesis
      by (intro exI[of _ "ps1 @ ps2"]) (simp add: replicate_add)
  next
    case o
    with 10(4) show ?thesis
      by (simp add: transpileCall.simps relational_def)
  qed
qed simp_all

declare transpileCall0.simps [simp del]

lemma transpileHas0_step:
  assumes "transpileHas0 L st args neg = Inr st'"
  shows "(neg \<longrightarrow> orders (q st') = orders (q st) \<and> startAfter st' = startAfter st) \<and>
         (\<not> neg \<longrightarrow> (\<exists>path. orders (q st') =
              orders (q st) @ (if parseDotSeparatedString path = None then [] else [(path, Asc)]) \<and>
            startAfter st' = startAfter st @ [VNil])) \<and>
         startAfterVals (q st') = startAfterVals (q st)"
  using assms
  by (auto simp: transpileHas0_def Let_def Where_fields OrderBy_fields
      split: if_splits option.splits type_kind.splits sum.splits)

lemma walk0_step:
  "transpile0 L st e neg = Inr st' \<Longrightarrow>
     \<exists>paths. orders (q st') = orders (q st) @
         map (\<lambda>p. (p, Asc)) (filter (\<lambda>p. parseDotSeparatedString p \<noteq> None) paths) \<and>
       startAfter st' = startAfter st @ replicate (length paths) VNil \<and>
       startAfterVals (q st') = startAfterVals (q st)"
  "transpileCall0 L st f args neg = Inr st' \<Longrightarrow>
     \<exists>paths. orders (q st') = orders (q st) @
         map (\<lambda>p. (p, Asc)) (filter (\<lambda>p. parseDotSeparatedString p \<noteq> None) paths) \<and>
       startAfter st' = startAfter st @ replicate (length paths) VNil \<and>
       startAfterVals (q st') = startAfterVals (q st)"
proof (induction L st e neg and L st f args neg arbitrary: st' and st' rule: transpile0_transpileCall0.induct)
  case (1 L st neg)
  then show ?case by (intro exI[of _ "[]"]) simp
next
  case (2 L st i fn args neg)
  then show ?case by simp
next
  case (10 L st fn args neg)
  consider (n) "fn = FunctionNot"
    | (h) "fn \<noteq> FunctionNot" "fn = FunctionHas"
    | (r) "fn \<noteq> FunctionNot" "fn \<noteq> FunctionHas" "fn \<in> relational"
    | (o) "fn \<noteq> FunctionNot" "fn \<noteq> FunctionHas" "fn \<notin> relational"
    by blast
  then show ?case
  proof cases
    case n
    with 10(2) have len: "\<not> length args \<noteq> 1"
      and w: "transpile0 L st (args ! 0) (\<not> neg) = Inr st'"
      by (auto simp: transpileCall0.simps split: if_splits)
    from 10(1)[OF n len w] show ?thesis .
  next
    case h
    with 10(2) have "transpileHas0 L st args neg = Inr st'"
      by (simp add: transpileCall0.simps)
    from transpileHas0_step[OF this] show ?thesis
    proof (cases neg)
      case True
      with \<open>_ \<and> _ \<and> _\<close> show ?thesis by (intro exI[of _ "[]"]) simp
    next
      case False
      with \<open>_ \<and> _ \<and> _\<close> obtain path where
        "orders (q st') =
           orders (q st) @ (if parseDotSeparatedString path = None then [] else [(path, Asc)])"
        "startAfter st' = startAfter st @ [VNil]"
        "startAfterVals (q st') = startAfterVals (q st)"
        by blast
      then show ?thesis by (intro exI[of _ "[path]"]) simp
    qed
  next
    case r
    with 10(2) have "st' = st"
      by (simp add: transpileCall0.simps relational_def transpileEquality0_def)
    then show ?thesis by (intro exI[of _ "[]"]) simp
  next
    case o
    with 10(2) show ?thesis
      by (simp add: transpileCall0.simps relational_def)
  qed
qed simp_all

lemma Transpile_has_profile_bio:
  "Transpile sample_lib ''shelves/1'' ''books'' tok 10 has_profile_bio =
     Inr \<lparr>collectionPath = ''shelves/1/books'', filters = [],
          orders = (''bio'', Asc) # (if tok = [] then [] else [(DocumentID, Asc)]),
          startAfterVals = Some (VNil # (if tok = [] then [] else [VString tok])),
          limit = Some 10\<rparr>"
  by (simp add: Let_def Transpile_def has_profile_bio_def GetExpr_def GetTypeMap_def fixture_defs
      transpileCall.simps Function_defs transpileHas_def setInequality_def Index_dot_def
      OrderBy_def StartAfter_def Limit_def Collection_def parseDotSeparatedString_def
      DocumentID_def)

lemma Transpile0_has_profile_bio:
  "Transpile0 (parsing_lib has_profile_bio)
     \<lparr>collection = ''books'', defaultPageSize = 10, maxPageSize = 100\<rparr>
     \<lparr>GetParent = ''shelves/1'', GetPageSize = 0, GetPageToken = tok, GetFilter = ''profile:bio''\<rparr> =
     Inr \<lparr>collectionPath = ''shelves/1/books'', filters = [],
          orders = (''bio'', Asc) # (if tok = [] then [] else [(DocumentID, Asc)]),
          startAfterVals = Some (VNil # (if tok = [] then [] else [VString tok])),
          limit = None\<rparr>"
  by (simp add: Let_def Transpile0_def Transpile0_pageSize_def parsing_lib_def has_profile_bio_def
      GetExpr_def GetTypeMap_def fixture_defs
      transpileCall0.simps Function_defs transpileHas0_def Index_dot_def
      OrderBy_def StartAfter_def Collection_def parseDotSeparatedString_def DocumentID_def)

section \<open>The operator mapper\<close>

text \<open>
  C5. For each of the six relational function names \<open>operator\<close> returns the operator of
  the table: \<open>=\<close> gives \<open>==\<close> and, negated, \<open>!=\<close>; \<open>!=\<close> gives \<open>!=\<close> and \<open>==\<close>;
  \<open><\<close> gives \<open><\<close> and \<open>>=\<close>; \<open><=\<close> gives \<open><=\<close> and \<open>>\<close>; \<open>>\<close> gives \<open>>\<close> and
  \<open><=\<close>; \<open>>=\<close> gives \<open>>=\<close> and \<open><\<close>. For every other function name it fails with an
  \<open>InvalidArgument\<close> status whose message names the function, after \<open>NOT\<close> when the
  negation flag is set.
\<close>

theorem operator_table:
  "operator FunctionEquals False = Inr ''=='' \<and> operator FunctionEquals True = Inr ''!='' \<and>
   operator FunctionNotEquals False = Inr ''!='' \<and> operator FunctionNotEquals True = Inr ''=='' \<and>
   operator FunctionLessThan False = Inr ''<'' \<and> operator FunctionLessThan True = Inr ''>='' \<and>
   operator FunctionLessEquals False = Inr ''<='' \<and> operator FunctionLessEquals True = Inr ''>'' \<and>
   operator FunctionGreaterThan False = Inr ''>'' \<and> operator FunctionGreaterThan True = Inr ''<='' \<and>
   operator FunctionGreaterEquals False = Inr ''>='' \<and> operator FunctionGreaterEquals True = Inr ''<'' \<and>
   (\<forall>function neg. function \<notin> relational \<longrightarrow>
      operator function neg =
        Inl (InvalidArgument
          (''no Firestore operator for '' @ (if neg then ''NOT '' else []) @ function)))"
  by (simp add: operator_def relational_def Function_defs)

theorem operator_table_witness:
  "''OR'' \<notin> relational \<and>
   operator ''OR'' True = Inl (InvalidArgument ''no Firestore operator for NOT OR'')"
  using operator_table by (simp add: relational_def Function_defs)

text \<open>
  C6. For every relational function and negation flag, the operator returned for the
  flipped flag is the logical complement of the operator returned for the flag: on all
  operands one holds exactly when the other does not. Flipping the flag twice gives
  the operator of the flag.
\<close>

theorem operator_negation:
  "function \<in> relational \<Longrightarrow>
     (\<exists>op nop. operator function neg = Inr op \<and> operator function (\<not> neg) = Inr nop \<and>
        (\<forall>a b. op_holds nop a b = (\<not> op_holds op a b))) \<and>
     operator function (\<not> (\<not> neg)) = operator function neg"
  by (cases neg) (auto simp: operator_def relational_def Function_defs op_holds_def)

theorem operator_negation_witness:
  "FunctionLessThan \<in> relational \<and>
   (\<exists>op nop. operator FunctionLessThan False = Inr op \<and>
      operator FunctionLessThan True = Inr nop \<and>
      (\<forall>a b. op_holds nop a b = (\<not> op_holds op a b)))"
  using operator_negation[of FunctionLessThan False] by (simp add: relational_def)

section \<open>The path resolver\<close>

text \<open>
  C7. A chain of selections of depth \<open>n\<close> is an identifier under \<open>n - 1\<close> nested
  selections (\<open>n\<close> nodes). For every such chain \<open>toPath\<close> returns the cased identifier
  followed by the cased fields, innermost selection first, joined by dots; when the
  casing never yields a dot (as camel casing does not), cutting the path at its dots
  gives back exactly these \<open>n\<close> segments. For every node that is neither an identifier
  nor a selection, nil included, \<open>toPath\<close> fails with the \<open>InvalidArgument\<close> status
  whose message is "unable to get path for expression", followed by a colon and the
  rendering of the node.
\<close>

theorem toPath_chain:
  "toPath L (select_chain (Some (Expr i (Some (Expr_IdentExpr name)))) sels) =
     Inr (join_dots (map (ToCamel L) (name # map snd sels))) \<and>
   ((\<forall>s. CHR ''.'' \<notin> set (ToCamel L s)) \<longrightarrow>
      split_dots (join_dots (map (ToCamel L) (name # map snd sels))) =
        map (ToCamel L) (name # map snd sels) \<and>
      length (split_dots (join_dots (map (ToCamel L) (name # map snd sels)))) =
        Suc (length sels)) \<and>
   (\<not> is_ident_or_select e \<longrightarrow>
      toPath L e =
        Inl (InvalidArgument (''unable to get path for expression: '' @ FormatExpr L e)))"
proof (intro conjI impI)
  show "toPath L (select_chain (Some (Expr i (Some (Expr_IdentExpr name)))) sels) =
     Inr (join_dots (map (ToCamel L) (name # map snd sels)))"
    by (simp add: toPath_select_chain join_dots_Cons map_concat comp_def del: join_dots.simps)
  assume "\<forall>s. CHR ''.'' \<notin> set (ToCamel L s)"
  then have cut: "split_dots (join_dots (map (ToCamel L) (name # map snd sels))) =
        map (ToCamel L) (name # map snd sels)"
    by (intro split_join_dots) auto
  then show "split_dots (join_dots (map (ToCamel L) (name # map snd sels))) =
        map (ToCamel L) (name # map snd sels)" .
  from cut show "length (split_dots (join_dots (map (ToCamel L) (name # map snd sels)))) =
        Suc (length sels)"
    by simp
next
  assume "\<not> is_ident_or_select e"
  then show "toPath L e =
        Inl (InvalidArgument (''unable to get path for expression: '' @ FormatExpr L e))"
    by (rule toPath_not_path)
qed

theorem toPath_chain_witness:
  "toPath sample_lib
     (select_chain (Some (Expr 1 (Some (Expr_IdentExpr ''book''))))
        [(2, ''author''), (3, ''name'')]) = Inr ''book.author.name'' \<and>
   (\<forall>s. CHR ''.'' \<notin> set (ToCamel sample_lib s)) \<and>
   split_dots ''book.author.name'' = [''book'', ''author'', ''name''] \<and>
   \<not> is_ident_or_select
       (Some (Expr 4 (Some (Expr_ConstExpr (Constant (Some (Constant_BoolValue True))))))) \<and>
   toPath sample_lib
     (Some (Expr 4 (Some (Expr_ConstExpr (Constant (Some (Constant_BoolValue True))))))) =
     Inl (InvalidArgument ''unable to get path for expression: <expr>'')"
  using toPath_chain[where L = sample_lib and i = 1 and name = "''book''"
      and sels = "[(2, ''author''), (3, ''name'')]"
      and e = "Some (Expr 4 (Some (Expr_ConstExpr (Constant (Some (Constant_BoolValue True))))))"]
  by (simp add: sample_lib_def)

section \<open>Page size validation\<close>



section \<open>The constant unwrapper on a nil constant\<close>

text \<open>
  C10. \<open>unwrapConst\<close> reads the tag of its argument without a nil check, so on a nil
  constant it panics. \<open>transpileEquality\<close> passes it \<open>GetConstExpr\<close> of the second
  argument, which is nil whenever that argument is not a constant node. So a
  relational comparison whose first argument resolves to a path and whose second
  argument is not a constant (an identifier, say) ends in the nil dereference, for the
  comparison procedure and for the entry point, and not in an \<open>InvalidArgument\<close> status.
\<close>

theorem unwrapConst_nil_reachable:
  "unwrapConst None = Inl NilDereference \<and>
   (f \<in> relational \<and> toPath L a = Inr path \<and> GetConstExpr b = None \<longrightarrow>
      transpileEquality L
        \<lparr>q = fq, types = tm, inequality = [], startAfter = []\<rparr> f [a, b] neg =
        Inl NilDereference \<and>
      Transpile L parent coll pageToken pageSize
        \<lparr>CheckedExpr = Some \<lparr>TypeMap = tm,
           Expr_root = Some (Expr i (Some (Expr_CallExpr f [a, b])))\<rparr>\<rparr> =
        Inl NilDereference)"
  by (auto simp: Transpile_def transpileEquality_def relational_def operator_def Function_defs
      transpileCall.simps setInequality_def GetExpr_def GetTypeMap_def)

theorem unwrapConst_nil_reachable_witness:
  "FunctionGreaterThan \<in> relational \<and>
   toPath sample_lib (Some (Expr 2 (Some (Expr_IdentExpr ''age'')))) = Inr ''age'' \<and>
   GetConstExpr (Some (Expr 3 (Some (Expr_IdentExpr ''limit'')))) = None \<and>
   Transpile sample_lib ''shelves/1'' ''books'' [] 10
     \<lparr>CheckedExpr = Some \<lparr>TypeMap = (\<lambda>i. None),
        Expr_root = Some (Expr 1 (Some (Expr_CallExpr FunctionGreaterThan
          [Some (Expr 2 (Some (Expr_IdentExpr ''age''))),
           Some (Expr 3 (Some (Expr_IdentExpr ''limit'')))])))\<rparr>\<rparr> =
     Inl NilDereference"
  using unwrapConst_nil_reachable[where f = FunctionGreaterThan and L = sample_lib
      and a = "Some (Expr 2 (Some (Expr_IdentExpr ''age'')))" and path = "''age''"
      and b = "Some (Expr 3 (Some (Expr_IdentExpr ''limit'')))" and tm = "\<lambda>i. None"
      and parent = "''shelves/1''" and coll = "''books''" and pageToken = "[]"
      and pageSize = 10 and i = 1]
  by (simp add: relational_def sample_lib_def)

section \<open>The comparison procedure and the inequality field\<close>

text \<open>
  C1, as the claim states it, fails: a comparison that resolves to the operator \<open>!=\<close>
  does call \<open>setInequality\<close>. On a new query state \<open>name != "x"\<close> sets the inequality
  field to \<open>name\<close>, and on a state whose inequality field is \<open>age\<close> it fails with the
  single-field error.
\<close>

theorem not_equals_claims_counterexample:
  "transpileEquality sample_lib
     \<lparr>q = Collection ''shelves/1/books'', types = (\<lambda>i. None), inequality = [], startAfter = []\<rparr>
     FunctionNotEquals
     [Some (Expr 2 (Some (Expr_IdentExpr ''name''))),
      Some (Expr 3 (Some (Expr_ConstExpr (Constant (Some (Constant_StringValue ''x''))))))]
     False =
   Inr \<lparr>q = Where (Collection ''shelves/1/books'') ''name'' ''!='' (VString ''x''),
        types = (\<lambda>i. None), inequality = ''name'', startAfter = []\<rparr> \<and>
   transpileEquality sample_lib
     \<lparr>q = Collection ''shelves/1/books'', types = (\<lambda>i. None), inequality = ''age'', startAfter = []\<rparr>
     FunctionNotEquals
     [Some (Expr 2 (Some (Expr_IdentExpr ''name''))),
      Some (Expr 3 (Some (Expr_ConstExpr (Constant (Some (Constant_StringValue ''x''))))))]
     False =
   Inl (InvalidArgument ''inequality can only be used on a single field'')"
  by (simp add: transpileEquality_def operator_def Function_defs sample_lib_def setInequality_def)

text \<open>
  C1, amended. For every relational comparison call with two arguments whose first
  argument resolves to a path and whose second argument is a constant,
  \<open>setInequality\<close> is called on the path if and only if the operator is not \<open>==\<close>.
  The operator is \<open>==\<close> exactly for \<open>=\<close> not negated and for \<open>!=\<close> negated; then the
  predicate is added and nothing else changes. For every other operator, \<open>!=\<close>
  included, the call claims the inequality field: it sets the field when none is set,
  goes through when the field is this path, and fails with the single-field error when
  the field is another path.
\<close>

theorem transpileEquality_claims:
  assumes "f \<in> relational" and "toPath L a = Inr path" and "GetConstExpr b = Some c"
  shows "\<exists>op v. operator f neg = Inr op \<and> unwrapConst (Some c) = Inr v \<and>
           (op = ''=='' \<longleftrightarrow> (f = FunctionEquals \<and> \<not> neg) \<or> (f = FunctionNotEquals \<and> neg)) \<and>
           transpileEquality L st f [a, b] neg =
             (if op = ''=='' then Inr (st\<lparr>q := Where (q st) path op v\<rparr>)
              else case setInequality st path of
                Inl err \<Rightarrow> Inl err
              | Inr st1 \<Rightarrow> Inr (st1\<lparr>q := Where (q st1) path op v\<rparr>)) \<and>
           (op = ''=='' \<longrightarrow>
              transpileEquality L st f [a, b] neg = Inr (st\<lparr>q := Where (q st) path op v\<rparr>)) \<and>
           (op \<noteq> ''=='' \<and> inequality st = [] \<longrightarrow>
              transpileEquality L st f [a, b] neg =
                Inr (st\<lparr>inequality := path, q := Where (q st) path op v\<rparr>)) \<and>
           (op \<noteq> ''=='' \<and> inequality st \<noteq> [] \<and> inequality st = path \<longrightarrow>
              transpileEquality L st f [a, b] neg = Inr (st\<lparr>q := Where (q st) path op v\<rparr>)) \<and>
           (op \<noteq> ''=='' \<and> inequality st \<noteq> [] \<and> inequality st \<noteq> path \<longrightarrow>
              transpileEquality L st f [a, b] neg =
                Inl (InvalidArgument ''inequality can only be used on a single field''))"
proof -
  from assms(1) obtain op where op: "operator f neg = Inr op"
    using operator_relational by blast
  obtain v where v: "unwrapConst (Some c) = Inr v"
    using unwrapConst_Some by blast
  have iff: "op = ''=='' \<longleftrightarrow> (f = FunctionEquals \<and> \<not> neg) \<or> (f = FunctionNotEquals \<and> neg)"
    using operator_eq_iff[OF assms(1), of neg] op by simp
  have eq: "transpileEquality L st f [a, b] neg =
             (if op = ''=='' then Inr (st\<lparr>q := Where (q st) path op v\<rparr>)
              else case setInequality st path of
                Inl err \<Rightarrow> Inl err
              | Inr st1 \<Rightarrow> Inr (st1\<lparr>q := Where (q st1) path op v\<rparr>))"
    using op v assms(2,3) by (simp add: transpileEquality_def split: sum.splits)
  show ?thesis
    apply (rule exI[of _ op], rule exI[of _ v])
    using op v iff eq by (simp add: setInequality_def)
qed

theorem transpileEquality_claims_witness:
  "FunctionLessThan \<in> relational \<and> toPath sample_lib (ident 2 ''age'') = Inr ''age'' \<and>
   GetConstExpr (const_int 4 65) = Some (Constant (Some (Constant_Int64Value 65))) \<and>
   transpileEquality sample_lib fresh FunctionLessThan [ident 2 ''age'', const_int 4 65] False =
     Inr (fresh\<lparr>inequality := ''age'', q := Where (q fresh) ''age'' ''<'' (VInt64 65)\<rparr>) \<and>
   transpileEquality sample_lib fresh FunctionNotEquals [ident 2 ''age'', const_int 4 65] True =
     Inr (fresh\<lparr>q := Where (q fresh) ''age'' ''=='' (VInt64 65)\<rparr>)"
  using transpileEquality_claims[where f = FunctionLessThan and L = sample_lib
      and a = "ident 2 ''age''" and path = "''age''" and b = "const_int 4 65"
      and c = "Constant (Some (Constant_Int64Value 65))" and st = fresh and neg = False]
    transpileEquality_claims[where f = FunctionNotEquals and L = sample_lib
      and a = "ident 2 ''age''" and path = "''age''" and b = "const_int 4 65"
      and c = "Constant (Some (Constant_Int64Value 65))" and st = fresh and neg = True]
  by (auto simp: relational_def fixture_defs operator_def Function_defs)

section \<open>Negated existence checks\<close>

text \<open>
  C2, as the claim states it, fails: for \<open>NOT has(profile, "bio")\<close> with the identifier
  \<open>profile\<close> of message type, the path built from the first argument is \<open>profile\<close>,
  with the field appended \<open>profile.bio\<close>, and stripping everything up to the first dot
  leaves \<open>bio\<close>. The one predicate added is \<open>bio == null\<close>, not \<open>profile.bio == null\<close>
  (here with a casing that leaves both names unchanged).
\<close>

theorem not_has_counterexample:
  "Transpile sample_lib ''shelves/1'' ''books'' [] 10 not_has_profile_bio =
     Inr (Where (Limit (Collection ''shelves/1/books'') 10) ''bio'' ''=='' VNil) \<and>
   Where (Limit (Collection ''shelves/1/books'') 10) ''bio'' ''=='' VNil \<noteq>
   Where (Limit (Collection ''shelves/1/books'') 10) ''profile.bio'' ''=='' VNil"
  by (simp add: Transpile_def not_has_profile_bio_def GetExpr_def GetTypeMap_def Function_defs
      transpileCall.simps transpileHas_def sample_lib_def Index_dot_def Where_def Limit_def Collection_def
      parseDotSeparatedString_def)

text \<open>
  C2, amended. For the filter \<open>NOT has(x, "f")\<close> where \<open>x\<close> is of message type and
  resolves to a path, transpilation succeeds and adds exactly one predicate,
  \<open>p == null\<close>, by one call of \<open>Where\<close>, and changes nothing else; \<open>p\<close> is the path of
  \<open>x\<close>, a dot and the cased \<open>f\<close>, without everything up to and including its first dot
  (a path such as \<open>bio\<close> or \<open>profile.bio\<close>, which the builder accepts). When \<open>x\<close> is an
  identifier whose cased name has no dot, \<open>p\<close> is the cased \<open>f\<close> alone. When \<open>x\<close>
  selects \<open>name\<close> on a root identifier whose cased name has no dot, \<open>p\<close> is the cased
  \<open>name\<close>, a dot and the cased \<open>f\<close>: this is how \<open>profile.bio == null\<close> arises.
\<close>

theorem not_has_predicate:
  assumes "types st (expr_id x) = Some (Type_MessageType m)"
    and "toPath L (Some x) = Inr p"
  shows "transpile L st
           (Some (Expr i (Some (Expr_CallExpr FunctionNot
              [Some (Expr j (Some (Expr_CallExpr FunctionHas
                 [Some x, Some (Expr k (Some (Expr_ConstExpr
                    (Constant (Some (Constant_StringValue field))))))])))])))) False =
         Inr (st\<lparr>q := Where (q st)
                (drop (nat (Index_dot (p @ ''.'' @ ToCamel L field) + 1))
                   (p @ ''.'' @ ToCamel L field)) ''=='' VNil\<rparr>) \<and>
         (ExprKind x = Some (Expr_IdentExpr name) \<and> CHR ''.'' \<notin> set (ToCamel L name) \<longrightarrow>
            drop (nat (Index_dot (p @ ''.'' @ ToCamel L field) + 1))
              (p @ ''.'' @ ToCamel L field) = ToCamel L field) \<and>
         (ExprKind x =
              Some (Expr_SelectExpr (Some (Expr r (Some (Expr_IdentExpr root)))) name) \<and>
              CHR ''.'' \<notin> set (ToCamel L root) \<longrightarrow>
            drop (nat (Index_dot (p @ ''.'' @ ToCamel L field) + 1))
              (p @ ''.'' @ ToCamel L field) = ToCamel L name @ ''.'' @ ToCamel L field)"
proof (intro conjI impI)
  show "transpile L st
           (Some (Expr i (Some (Expr_CallExpr FunctionNot
              [Some (Expr j (Some (Expr_CallExpr FunctionHas
                 [Some x, Some (Expr k (Some (Expr_ConstExpr
                    (Constant (Some (Constant_StringValue field))))))])))])))) False =
         Inr (st\<lparr>q := Where (q st)
                (drop (nat (Index_dot (p @ ''.'' @ ToCamel L field) + 1))
                   (p @ ''.'' @ ToCamel L field)) ''=='' VNil\<rparr>)"
    using assms by (simp add: Function_defs transpileCall.simps transpileHas_def Let_def)
next
  assume "ExprKind x = Some (Expr_IdentExpr name) \<and> CHR ''.'' \<notin> set (ToCamel L name)"
  with assms(2) have "p = ToCamel L name" "CHR ''.'' \<notin> set p"
    by (cases x; simp)+
  then show "drop (nat (Index_dot (p @ ''.'' @ ToCamel L field) + 1))
              (p @ ''.'' @ ToCamel L field) = ToCamel L field"
    by (simp add: Index_dot_append nat_add_distrib)
next
  assume "ExprKind x =
              Some (Expr_SelectExpr (Some (Expr r (Some (Expr_IdentExpr root)))) name) \<and>
              CHR ''.'' \<notin> set (ToCamel L root)"
  with assms(2) have "p = ToCamel L root @ ''.'' @ ToCamel L name" "CHR ''.'' \<notin> set (ToCamel L root)"
    by (cases x; simp)+
  then show "drop (nat (Index_dot (p @ ''.'' @ ToCamel L field) + 1))
              (p @ ''.'' @ ToCamel L field) = ToCamel L name @ ''.'' @ ToCamel L field"
    by (simp add: Index_dot_append nat_add_distrib)
qed

theorem not_has_predicate_witness:
  "types fresh (expr_id (Expr 3 (Some (Expr_IdentExpr ''profile'')))) =
     Some (Type_MessageType ''library.Profile'') \<and>
   toPath sample_lib (ident 3 ''profile'') = Inr ''profile'' \<and>
   CHR ''.'' \<notin> set (ToCamel sample_lib ''profile'') \<and>
   transpile sample_lib fresh
     (Some (Expr 1 (Some (Expr_CallExpr FunctionNot
        [Some (Expr 2 (Some (Expr_CallExpr FunctionHas
           [ident 3 ''profile'', const_string 4 ''bio''])))])))) False =
     Inr (fresh\<lparr>q := Where (q fresh) ''bio'' ''=='' VNil\<rparr>) \<and>
   types fresh (expr_id (Expr 3 (Some (Expr_SelectExpr (ident 5 ''book'') ''profile'')))) =
     Some (Type_MessageType ''library.Profile'') \<and>
   toPath sample_lib (Some (Expr 3 (Some (Expr_SelectExpr (ident 5 ''book'') ''profile'')))) =
     Inr ''book.profile'' \<and>
   CHR ''.'' \<notin> set (ToCamel sample_lib ''book'') \<and>
   transpile sample_lib fresh
     (Some (Expr 1 (Some (Expr_CallExpr FunctionNot
        [Some (Expr 2 (Some (Expr_CallExpr FunctionHas
           [Some (Expr 3 (Some (Expr_SelectExpr (ident 5 ''book'') ''profile''))),
            const_string 4 ''bio''])))])))) False =
     Inr (fresh\<lparr>q := Where (q fresh) ''profile.bio'' ''=='' VNil\<rparr>)"
  using not_has_predicate[where st = fresh and L = sample_lib
      and x = "Expr 3 (Some (Expr_IdentExpr ''profile''))" and m = "''library.Profile''"
      and p = "''profile''" and i = 1 and j = 2 and k = 4 and field = "''bio''"
      and name = "''profile''"]
    not_has_predicate[where st = fresh and L = sample_lib
      and x = "Expr 3 (Some (Expr_SelectExpr (ident 5 ''book'') ''profile''))"
      and m = "''library.Profile''"
      and p = "''book.profile''" and i = 1 and j = 2 and k = 4 and field = "''bio''"
      and r = 5 and root = "''book''" and name = "''profile''"]
  by (simp add: fixture_defs)

section \<open>The inequality guard\<close>

text \<open>
  C3, as the claim states it, fails on the empty path, which \<open>setInequality\<close> reads as
  "no field set": after a call with the empty path, a call with the different path
  \<open>age\<close> succeeds. The filter \<open>has(profile, bio) AND age > 30\<close>, whose existence check
  names its field by an identifier and not by a string constant, claims the empty path
  and then \<open>age\<close>, and transpiles successfully.
\<close>

theorem empty_path_counterexample:
  "claims \<lparr>q = Collection ''shelves/1/books'', types = (\<lambda>i. None), inequality = [],
       startAfter = []\<rparr> [[], ''age''] =
     Inr \<lparr>q = Collection ''shelves/1/books'', types = (\<lambda>i. None), inequality = ''age'',
          startAfter = []\<rparr> \<and>
   transpile sample_lib fresh
     (Some (Expr 1 (Some (Expr_CallExpr FunctionAnd
        [Some (Expr 2 (Some (Expr_CallExpr FunctionHas [ident 3 ''profile'', ident 4 ''bio'']))),
         Some (Expr 5 (Some (Expr_CallExpr FunctionGreaterThan
           [ident 6 ''age'', const_int 7 30])))])))) False =
     Inr (fresh\<lparr>inequality := ''age'', startAfter := [VNil],
           q := Where (OrderBy (q fresh) [] Asc) ''age'' ''>'' (VInt64 30)\<rparr>)"
  by (simp add: setInequality_def fixture_defs transpileCall.simps Function_defs transpileHas_def
      transpileEquality_def operator_def Index_dot_def)

text \<open>
  C3, amended. A call of \<open>setInequality\<close> on a state with no inequality field set
  sets the field to its path and succeeds; on a state whose field is set, a call with
  the same path succeeds and changes nothing, and a call with a different path fails
  with \<open>InvalidArgument\<close> "inequality can only be used on a single field". So for
  every sequence of calls on a new state that starts with a non-empty path, all calls
  succeed when every later path equals the first, and the sequence fails otherwise.
  Consequently, on a new state and with a non-empty first path: the conjunction of two
  inequality comparisons succeeds, with the inequality field set to the path, when both
  are on the same path, and fails with the single-field error when the second is on a
  different path; the same holds when the second call is an existence check that is
  not negated.
\<close>

theorem setInequality_single_field:
  "(inequality st = [] \<longrightarrow> setInequality st path = Inr (st\<lparr>inequality := path\<rparr>)) \<and>
   (inequality st \<noteq> [] \<and> inequality st = path \<longrightarrow> setInequality st path = Inr st) \<and>
   (inequality st \<noteq> [] \<and> inequality st \<noteq> path \<longrightarrow>
      setInequality st path =
        Inl (InvalidArgument ''inequality can only be used on a single field'')) \<and>
   (inequality st = [] \<and> path \<noteq> [] \<longrightarrow>
      claims st (path # ps) =
        (if \<forall>p \<in> set ps. p = path then Inr (st\<lparr>inequality := path\<rparr>)
         else Inl (InvalidArgument ''inequality can only be used on a single field''))) \<and>
   (inequality st = [] \<and> f1 \<in> relational \<and> f2 \<in> relational \<and>
    operator f1 neg \<noteq> Inr ''=='' \<and> operator f2 neg \<noteq> Inr ''=='' \<and>
    toPath L a1 = Inr p1 \<and> toPath L a2 = Inr p2 \<and> p1 \<noteq> [] \<and>
    GetConstExpr b1 \<noteq> None \<and> GetConstExpr b2 \<noteq> None \<longrightarrow>
      (p2 = p1 \<longrightarrow>
         (\<exists>st'. transpile L st
            (Some (Expr i (Some (Expr_CallExpr FunctionAnd
               [Some (Expr i1 (Some (Expr_CallExpr f1 [a1, b1]))),
                Some (Expr i2 (Some (Expr_CallExpr f2 [a2, b2])))])))) neg = Inr st' \<and>
            inequality st' = p1)) \<and>
      (p2 \<noteq> p1 \<longrightarrow>
         transpile L st
            (Some (Expr i (Some (Expr_CallExpr FunctionAnd
               [Some (Expr i1 (Some (Expr_CallExpr f1 [a1, b1]))),
                Some (Expr i2 (Some (Expr_CallExpr f2 [a2, b2])))])))) neg =
           Inl (InvalidArgument ''inequality can only be used on a single field''))) \<and>
   (inequality st = [] \<and> f1 \<in> relational \<and> operator f1 False \<noteq> Inr ''=='' \<and>
    toPath L a1 = Inr p1 \<and> p1 \<noteq> [] \<and> GetConstExpr b1 \<noteq> None \<and>
    types st (expr_id x) = Some (Type_MessageType m) \<and> toPath L (Some x) = Inr px \<and>
    ph = drop (nat (Index_dot (px @ ''.'' @ ToCamel L (GetStringValue (GetConstExpr bh))) + 1))
           (px @ ''.'' @ ToCamel L (GetStringValue (GetConstExpr bh))) \<longrightarrow>
      (ph = p1 \<longrightarrow>
         (\<exists>st'. transpile L st
            (Some (Expr i (Some (Expr_CallExpr FunctionAnd
               [Some (Expr i1 (Some (Expr_CallExpr f1 [a1, b1]))),
                Some (Expr i2 (Some (Expr_CallExpr FunctionHas [Some x, bh])))])))) False = Inr st' \<and>
            inequality st' = p1)) \<and>
      (ph \<noteq> p1 \<longrightarrow>
         transpile L st
            (Some (Expr i (Some (Expr_CallExpr FunctionAnd
               [Some (Expr i1 (Some (Expr_CallExpr f1 [a1, b1]))),
                Some (Expr i2 (Some (Expr_CallExpr FunctionHas [Some x, bh])))])))) False =
           Inl (InvalidArgument ''inequality can only be used on a single field'')))"
proof (intro conjI impI; (elim conjE)?)
  show "inequality st = [] \<Longrightarrow> setInequality st path = Inr (st\<lparr>inequality := path\<rparr>)"
    by (simp add: setInequality_def)
  show "inequality st \<noteq> [] \<Longrightarrow> inequality st = path \<Longrightarrow> setInequality st path = Inr st"
    by (simp add: setInequality_def)
  show "inequality st \<noteq> [] \<Longrightarrow> inequality st \<noteq> path \<Longrightarrow> setInequality st path =
        Inl (InvalidArgument ''inequality can only be used on a single field'')"
    by (simp add: setInequality_def)
  show "inequality st = [] \<Longrightarrow> path \<noteq> [] \<Longrightarrow> claims st (path # ps) =
        (if \<forall>p \<in> set ps. p = path then Inr (st\<lparr>inequality := path\<rparr>)
         else Inl (InvalidArgument ''inequality can only be used on a single field''))"
    using claims_set[of "st\<lparr>inequality := path\<rparr>" path ps] by (simp add: setInequality_def)
next
  assume a: "inequality st = []" "f1 \<in> relational" "f2 \<in> relational"
    "operator f1 neg \<noteq> Inr ''==''" "operator f2 neg \<noteq> Inr ''==''"
    "toPath L a1 = Inr p1" "toPath L a2 = Inr p2" "p1 \<noteq> []"
    "GetConstExpr b1 \<noteq> None" "GetConstExpr b2 \<noteq> None"
  obtain op1 v1 where e1: "transpileEquality L st f1 [a1, b1] neg =
      Inr (st\<lparr>inequality := p1, q := Where (q st) p1 op1 v1\<rparr>)"
    using transpileEquality_claiming[OF a(2,4,6,9), of st] a(1) by (auto simp: setInequality_def)
  let ?st1 = "st\<lparr>inequality := p1, q := Where (q st) p1 op1 v1\<rparr>"
  obtain op2 v2 where e2: "transpileEquality L ?st1 f2 [a2, b2] neg =
      (case setInequality ?st1 p2 of
              Inl err \<Rightarrow> Inl err
            | Inr st1 \<Rightarrow> Inr (st1\<lparr>q := Where (q st1) p2 op2 v2\<rparr>))"
    using transpileEquality_claiming[OF a(3,5,7,10), of ?st1] by blast
  {
    assume "p2 = p1"
    then show "\<exists>st'. transpile L st
            (Some (Expr i (Some (Expr_CallExpr FunctionAnd
               [Some (Expr i1 (Some (Expr_CallExpr f1 [a1, b1]))),
                Some (Expr i2 (Some (Expr_CallExpr f2 [a2, b2])))])))) neg = Inr st' \<and>
            inequality st' = p1"
      using a(2,3,8) e1 e2 by (simp add: transpileCall_And transpileCall_rel setInequality_def)
  next
    assume "p2 \<noteq> p1"
    then show "transpile L st
            (Some (Expr i (Some (Expr_CallExpr FunctionAnd
               [Some (Expr i1 (Some (Expr_CallExpr f1 [a1, b1]))),
                Some (Expr i2 (Some (Expr_CallExpr f2 [a2, b2])))])))) neg =
           Inl (InvalidArgument ''inequality can only be used on a single field'')"
      using a(2,3,8) e1 e2 by (simp add: transpileCall_And transpileCall_rel setInequality_def)
  }
next
  assume a: "inequality st = []" "f1 \<in> relational" "operator f1 False \<noteq> Inr ''==''"
    "toPath L a1 = Inr p1" "p1 \<noteq> []" "GetConstExpr b1 \<noteq> None"
    "types st (expr_id x) = Some (Type_MessageType m)" "toPath L (Some x) = Inr px"
    "ph = drop (nat (Index_dot (px @ ''.'' @ ToCamel L (GetStringValue (GetConstExpr bh))) + 1))
           (px @ ''.'' @ ToCamel L (GetStringValue (GetConstExpr bh)))"
  obtain op1 v1 where e1: "transpileEquality L st f1 [a1, b1] False =
      Inr (st\<lparr>inequality := p1, q := Where (q st) p1 op1 v1\<rparr>)"
    using transpileEquality_claiming[OF a(2,3,4,6), of st] a(1) by (auto simp: setInequality_def)
  let ?st1 = "st\<lparr>inequality := p1, q := Where (q st) p1 op1 v1\<rparr>"
  have t: "types ?st1 (expr_id x) = Some (Type_MessageType m)"
    using a(7) by simp
  note e2 = transpileHas_claiming[OF t a(8,9)]
  {
    assume "ph = p1"
    then show "\<exists>st'. transpile L st
            (Some (Expr i (Some (Expr_CallExpr FunctionAnd
               [Some (Expr i1 (Some (Expr_CallExpr f1 [a1, b1]))),
                Some (Expr i2 (Some (Expr_CallExpr FunctionHas [Some x, bh])))])))) False = Inr st' \<and>
            inequality st' = p1"
      using a(2,5) e1 e2 by (simp add: transpileCall_And transpileCall_rel transpileCall_Has setInequality_def)
  next
    assume "ph \<noteq> p1"
    then show "transpile L st
            (Some (Expr i (Some (Expr_CallExpr FunctionAnd
               [Some (Expr i1 (Some (Expr_CallExpr f1 [a1, b1]))),
                Some (Expr i2 (Some (Expr_CallExpr FunctionHas [Some x, bh])))])))) False =
           Inl (InvalidArgument ''inequality can only be used on a single field'')"
      using a(2,5) e1 e2 by (simp add: transpileCall_And transpileCall_rel transpileCall_Has setInequality_def)
  }
qed

theorem setInequality_single_field_witness:
  "inequality fresh = [] \<and>
   setInequality fresh ''age'' = Inr (fresh\<lparr>inequality := ''age''\<rparr>) \<and>
   inequality (fresh\<lparr>inequality := ''age''\<rparr>) \<noteq> [] \<and>
   setInequality (fresh\<lparr>inequality := ''age''\<rparr>) ''age'' = Inr (fresh\<lparr>inequality := ''age''\<rparr>) \<and>
   setInequality (fresh\<lparr>inequality := ''age''\<rparr>) ''height'' =
     Inl (InvalidArgument ''inequality can only be used on a single field'') \<and>
   claims fresh [''age'', ''age'', ''age''] = Inr (fresh\<lparr>inequality := ''age''\<rparr>) \<and>
   claims fresh [''age'', ''age'', ''height''] =
     Inl (InvalidArgument ''inequality can only be used on a single field'') \<and>
   FunctionGreaterThan \<in> relational \<and> FunctionLessThan \<in> relational \<and>
   operator FunctionGreaterThan False \<noteq> Inr ''=='' \<and> operator FunctionLessThan False \<noteq> Inr ''=='' \<and>
   toPath sample_lib (ident 3 ''age'') = Inr ''age'' \<and>
   toPath sample_lib (ident 6 ''height'') = Inr ''height'' \<and>
   GetConstExpr (const_int 4 30) \<noteq> None \<and>
   (\<exists>st'. transpile sample_lib fresh
      (Some (Expr 1 (Some (Expr_CallExpr FunctionAnd
         [Some (Expr 2 (Some (Expr_CallExpr FunctionGreaterThan [ident 3 ''age'', const_int 4 30]))),
          Some (Expr 5 (Some (Expr_CallExpr FunctionLessThan
            [ident 6 ''age'', const_int 7 65])))])))) False = Inr st' \<and>
      inequality st' = ''age'') \<and>
   transpile sample_lib fresh
      (Some (Expr 1 (Some (Expr_CallExpr FunctionAnd
         [Some (Expr 2 (Some (Expr_CallExpr FunctionGreaterThan [ident 3 ''age'', const_int 4 30]))),
          Some (Expr 5 (Some (Expr_CallExpr FunctionGreaterThan
            [ident 6 ''height'', const_int 7 180])))])))) False =
     Inl (InvalidArgument ''inequality can only be used on a single field'') \<and>
   types fresh (expr_id (Expr 3 (Some (Expr_IdentExpr ''profile'')))) =
     Some (Type_MessageType ''library.Profile'') \<and>
   transpile sample_lib fresh
      (Some (Expr 1 (Some (Expr_CallExpr FunctionAnd
         [Some (Expr 2 (Some (Expr_CallExpr FunctionGreaterThan [ident 6 ''age'', const_int 4 30]))),
          Some (Expr 5 (Some (Expr_CallExpr FunctionHas
            [ident 3 ''profile'', const_string 7 ''bio''])))])))) False =
     Inl (InvalidArgument ''inequality can only be used on a single field'')"
  using
    setInequality_single_field[where st = fresh and path = "''age''" and ps = "[''age'', ''age'']"
      and ?f1.0 = FunctionGreaterThan and ?f2.0 = FunctionLessThan and neg = False
      and L = sample_lib and ?a1.0 = "ident 3 ''age''" and ?a2.0 = "ident 6 ''age''"
      and ?p1.0 = "''age''" and ?p2.0 = "''age''" and ?b1.0 = "const_int 4 30"
      and ?b2.0 = "const_int 7 65" and i = 1 and ?i1.0 = 2 and ?i2.0 = 5]
    setInequality_single_field[where st = fresh and path = "''age''" and ps = "[''age'', ''height'']"
      and ?f1.0 = FunctionGreaterThan and ?f2.0 = FunctionGreaterThan and neg = False
      and L = sample_lib and ?a1.0 = "ident 3 ''age''" and ?a2.0 = "ident 6 ''height''"
      and ?p1.0 = "''age''" and ?p2.0 = "''height''" and ?b1.0 = "const_int 4 30"
      and ?b2.0 = "const_int 7 180" and i = 1 and ?i1.0 = 2 and ?i2.0 = 5]
    setInequality_single_field[where st = "fresh\<lparr>inequality := ''age''\<rparr>" and path = "''age''"]
    setInequality_single_field[where st = "fresh\<lparr>inequality := ''age''\<rparr>" and path = "''height''"]
    setInequality_single_field[where st = fresh
      and ?f1.0 = FunctionGreaterThan and L = sample_lib and ?a1.0 = "ident 6 ''age''"
      and ?p1.0 = "''age''" and ?b1.0 = "const_int 4 30"
      and x = "Expr 3 (Some (Expr_IdentExpr ''profile''))" and m = "''library.Profile''"
      and px = "''profile''" and bh = "const_string 7 ''bio''" and ph = "''bio''"
      and i = 1 and ?i1.0 = 2 and ?i2.0 = 5]
  by (simp add: fixture_defs relational_def operator_def Function_defs Index_dot_def)

section \<open>Ordering clauses and cursor values\<close>

text \<open>
  C4 does not hold of the code. \<open>transpileHas\<close> appends the null cursor and then calls
  \<open>OrderBy\<close>, without looking at the path and without checking that the second argument
  is a string constant. For \<open>has(profile, bio)\<close>, where \<open>bio\<close> is an identifier, and
  for \<open>has(profile, "")\<close>, the field name read is empty and so is the path after the
  leading segment is stripped; \<open>OrderBy\<close> refuses it and adds no clause. The walk
  succeeds with one cursor value and no ordering clause, and the entry point passes
  that cursor to "start after" on a query without any ordering: the cursor has no
  ordering clause that it belongs to.
\<close>

theorem has_cursor_without_ordering:
  "transpile sample_lib fresh (GetExpr (CheckedExpr has_profile_unquoted)) False =
     Inr (fresh\<lparr>startAfter := [VNil]\<rparr>) \<and>
   orders (q (fresh\<lparr>startAfter := [VNil]\<rparr>)) = [] \<and>
   Transpile sample_lib ''shelves/1'' ''books'' [] 10 has_profile_unquoted =
     Inr \<lparr>collectionPath = ''shelves/1/books'', filters = [], orders = [],
          startAfterVals = Some [VNil], limit = Some 10\<rparr> \<and>
   Transpile sample_lib ''shelves/1'' ''books'' [] 10 has_profile_empty =
     Inr \<lparr>collectionPath = ''shelves/1/books'', filters = [], orders = [],
          startAfterVals = Some [VNil], limit = Some 10\<rparr> \<and>
   Transpile sample_lib ''shelves/1'' ''books'' ''doc42'' 10 has_profile_unquoted =
     Inr \<lparr>collectionPath = ''shelves/1/books'', filters = [], orders = [(DocumentID, Asc)],
          startAfterVals = Some [VNil, VString ''doc42''], limit = Some 10\<rparr>"
  by (simp add: Let_def Transpile_def has_profile_unquoted_def has_profile_empty_def
      GetExpr_def GetTypeMap_def fixture_defs transpileCall.simps Function_defs
      transpileHas_def setInequality_def Index_dot_def OrderBy_def StartAfter_def Limit_def
      Collection_def parseDotSeparatedString_def DocumentID_def)

section \<open>Pagination\<close>

text \<open>
  C8. For every request whose transpilation succeeds, in either file: when the page
  token is not empty, the orderings of the final query are those of the tree walk
  followed by an ascending clause on the document identifier, the cursor list passed
  to "start after" is that of the walk followed by the page token, which is its last
  entry; when the page token is empty, the orderings are those of the walk and the
  cursor list of the walk is passed to "start after" exactly when it is not empty.
\<close>

theorem page_token_ordering:
  "(Transpile L parent coll pageToken pageSize flt = Inr fq \<longrightarrow>
      (\<exists>st1. transpile L
           \<lparr>q = Limit (Collection (parent @ ''/'' @ coll)) (sint pageSize),
            types = GetTypeMap (CheckedExpr flt), inequality = [], startAfter = []\<rparr>
           (GetExpr (CheckedExpr flt)) False = Inr st1 \<and>
         (pageToken \<noteq> [] \<longrightarrow>
            orders fq = orders (q st1) @ [(DocumentID, Asc)] \<and>
            startAfterVals fq = Some (startAfter st1 @ [VString pageToken]) \<and>
            last (startAfter st1 @ [VString pageToken]) = VString pageToken) \<and>
         (pageToken = [] \<longrightarrow>
            orders fq = orders (q st1) \<and>
            startAfterVals fq = (if startAfter st1 = [] then None else Some (startAfter st1))))) \<and>
   (Transpile0 L t req = Inr fq0 \<longrightarrow>
      (\<exists>flt0 st1. ParseFilter L req = Inr flt0 \<and>
         transpile0 L
           \<lparr>q = Collection (GetParent req @ ''/'' @ collection t),
            types = GetTypeMap (CheckedExpr flt0), inequality = [], startAfter = []\<rparr>
           (GetExpr (CheckedExpr flt0)) False = Inr st1 \<and>
         (GetPageToken req \<noteq> [] \<longrightarrow>
            orders fq0 = orders (q st1) @ [(DocumentID, Asc)] \<and>
            startAfterVals fq0 = Some (startAfter st1 @ [VString (GetPageToken req)]) \<and>
            last (startAfter st1 @ [VString (GetPageToken req)]) = VString (GetPageToken req)) \<and>
         (GetPageToken req = [] \<longrightarrow>
            orders fq0 = orders (q st1) \<and>
            startAfterVals fq0 = (if startAfter st1 = [] then None else Some (startAfter st1)))))"
proof (intro conjI impI)
  assume t: "Transpile L parent coll pageToken pageSize flt = Inr fq"
  let ?st0 = "\<lparr>q = Limit (Collection (parent @ ''/'' @ coll)) (sint pageSize),
                 types = GetTypeMap (CheckedExpr flt),
                 inequality = [], startAfter = []\<rparr>"
  from t obtain st1 where w: "transpile L ?st0 (GetExpr (CheckedExpr flt)) False = Inr st1"
    by (auto simp: Transpile_def Let_def split: sum.splits)
  from walk_step(1)[OF w] have n: "startAfterVals (q st1) = None"
    by (auto simp: Limit_def Collection_def)
  from t w n have
    "(pageToken \<noteq> [] \<longrightarrow>
            orders fq = orders (q st1) @ [(DocumentID, Asc)] \<and>
            startAfterVals fq = Some (startAfter st1 @ [VString pageToken]) \<and>
            last (startAfter st1 @ [VString pageToken]) = VString pageToken) \<and>
         (pageToken = [] \<longrightarrow>
            orders fq = orders (q st1) \<and>
            startAfterVals fq = (if startAfter st1 = [] then None else Some (startAfter st1)))"
    using parse_DocumentID
    by (auto simp: Transpile_def Let_def OrderBy_def StartAfter_def split: option.splits)
  with w show "\<exists>st1. transpile L ?st0 (GetExpr (CheckedExpr flt)) False = Inr st1 \<and>
         (pageToken \<noteq> [] \<longrightarrow>
            orders fq = orders (q st1) @ [(DocumentID, Asc)] \<and>
            startAfterVals fq = Some (startAfter st1 @ [VString pageToken]) \<and>
            last (startAfter st1 @ [VString pageToken]) = VString pageToken) \<and>
         (pageToken = [] \<longrightarrow>
            orders fq = orders (q st1) \<and>
            startAfterVals fq = (if startAfter st1 = [] then None else Some (startAfter st1)))"
    by blast
next
  assume t: "Transpile0 L t req = Inr fq0"
  then obtain flt0 where pf: "ParseFilter L req = Inr flt0"
    by (auto simp: Transpile0_def Let_def split: sum.splits)
  let ?st0 = "\<lparr>q = Collection (GetParent req @ ''/'' @ collection t),
            types = GetTypeMap (CheckedExpr flt0), inequality = [], startAfter = []\<rparr>"
  from t pf obtain st1 where w: "transpile0 L ?st0 (GetExpr (CheckedExpr flt0)) False = Inr st1"
    by (auto simp: Transpile0_def Let_def split: sum.splits)
  from walk0_step(1)[OF w] have n: "startAfterVals (q st1) = None"
    by (auto simp: Collection_def)
  from t pf w n have
    "(GetPageToken req \<noteq> [] \<longrightarrow>
            orders fq0 = orders (q st1) @ [(DocumentID, Asc)] \<and>
            startAfterVals fq0 = Some (startAfter st1 @ [VString (GetPageToken req)]) \<and>
            last (startAfter st1 @ [VString (GetPageToken req)]) = VString (GetPageToken req)) \<and>
         (GetPageToken req = [] \<longrightarrow>
            orders fq0 = orders (q st1) \<and>
            startAfterVals fq0 = (if startAfter st1 = [] then None else Some (startAfter st1)))"
    using parse_DocumentID
    by (auto simp: Transpile0_def Let_def OrderBy_def StartAfter_def
        split: sum.splits option.splits)
  with pf w show "\<exists>flt0 st1. ParseFilter L req = Inr flt0 \<and>
         transpile0 L
           \<lparr>q = Collection (GetParent req @ ''/'' @ collection t),
            types = GetTypeMap (CheckedExpr flt0), inequality = [], startAfter = []\<rparr>
           (GetExpr (CheckedExpr flt0)) False = Inr st1 \<and>
         (GetPageToken req \<noteq> [] \<longrightarrow>
            orders fq0 = orders (q st1) @ [(DocumentID, Asc)] \<and>
            startAfterVals fq0 = Some (startAfter st1 @ [VString (GetPageToken req)]) \<and>
            last (startAfter st1 @ [VString (GetPageToken req)]) = VString (GetPageToken req)) \<and>
         (GetPageToken req = [] \<longrightarrow>
            orders fq0 = orders (q st1) \<and>
            startAfterVals fq0 = (if startAfter st1 = [] then None else Some (startAfter st1)))"
    by blast
qed

theorem page_token_ordering_witness:
  "Transpile sample_lib ''shelves/1'' ''books'' ''doc42'' 10 has_profile_bio =
     Inr \<lparr>collectionPath = ''shelves/1/books'', filters = [],
          orders = [(''bio'', Asc), (DocumentID, Asc)],
          startAfterVals = Some [VNil, VString ''doc42''], limit = Some 10\<rparr> \<and>
   ''doc42'' \<noteq> [] \<and>
   Transpile0 (parsing_lib has_profile_bio)
     \<lparr>collection = ''books'', defaultPageSize = 10, maxPageSize = 100\<rparr>
     \<lparr>GetParent = ''shelves/1'', GetPageSize = 0, GetPageToken = ''doc42'',
      GetFilter = ''profile:bio''\<rparr> =
     Inr \<lparr>collectionPath = ''shelves/1/books'', filters = [],
          orders = [(''bio'', Asc), (DocumentID, Asc)],
          startAfterVals = Some [VNil, VString ''doc42''], limit = None\<rparr> \<and>
   Transpile sample_lib ''shelves/1'' ''books'' [] 10 not_has_profile_bio =
     Inr \<lparr>collectionPath = ''shelves/1/books'', filters = [(''bio'', ''=='', VNil)],
          orders = [], startAfterVals = None, limit = Some 10\<rparr>"
  using page_token_ordering[where L = sample_lib and parent = "''shelves/1''"
      and coll = "''books''" and pageToken = "''doc42''" and pageSize = 10
      and flt = has_profile_bio
      and fq = "\<lparr>collectionPath = ''shelves/1/books'', filters = [],
          orders = [(''bio'', Asc), (DocumentID, Asc)],
          startAfterVals = Some [VNil, VString ''doc42''], limit = Some 10\<rparr>"]
    page_token_ordering[where L = "parsing_lib has_profile_bio"
      and t = "\<lparr>collection = ''books'', defaultPageSize = 10, maxPageSize = 100\<rparr>"
      and req = "\<lparr>GetParent = ''shelves/1'', GetPageSize = 0, GetPageToken = ''doc42'',
         GetFilter = ''profile:bio''\<rparr>"
      and ?fq0.0 = "\<lparr>collectionPath = ''shelves/1/books'', filters = [],
          orders = [(''bio'', Asc), (DocumentID, Asc)],
          startAfterVals = Some [VNil, VString ''doc42''], limit = None\<rparr>"]
    page_token_ordering[where L = sample_lib and parent = "''shelves/1''"
      and coll = "''books''" and pageToken = "[]" and pageSize = 10
      and flt = not_has_profile_bio
      and fq = "\<lparr>collectionPath = ''shelves/1/books'', filters = [(''bio'', ''=='', VNil)],
          orders = [], startAfterVals = None, limit = Some 10\<rparr>"]
    Transpile_has_profile_bio[of "''doc42''"] Transpile0_has_profile_bio[of "''doc42''"]
  by (simp add: Let_def Transpile_def not_has_profile_bio_def GetExpr_def GetTypeMap_def Function_defs
      transpileCall.simps transpileHas_def sample_lib_def Index_dot_def Where_def Limit_def Collection_def
      parseDotSeparatedString_def)

end
